theory Spec2Isabelle
  imports Complex_Main "HOL-Library.Sublist"
begin

section \<open>The calculation engine of the electrical load calculator\<close>

text \<open>
  The engine is the set of pure functions of \<^verbatim>\<open>src/utils/calculations.js\<close>:
  \<^verbatim>\<open>calculatePanelSlots\<close>, \<^verbatim>\<open>calculateModeledSlots\<close>,
  \<^verbatim>\<open>calculateNECOptionalMethod\<close>, \<^verbatim>\<open>calculatePracticalLoad\<close>,
  \<^verbatim>\<open>calculateBatterySizing\<close> and \<^verbatim>\<open>calculateEVFeasibility\<close>.

  Numbers. A JavaScript number is modelled as an exact rational (\<^typ>\<open>rat\<close>), a panel slot
  count and the result of \<^verbatim>\<open>Math.ceil\<close>, \<^verbatim>\<open>Math.floor\<close> and \<^verbatim>\<open>Math.round\<close> as an
  \<^typ>\<open>int\<close>. The rounding error of IEEE doubles, \<^verbatim>\<open>NaN\<close> and the infinities are not
  represented: a quotient is the exact quotient, and a quotient by zero (which the
  source turns into \<^verbatim>\<open>Infinity\<close> or \<^verbatim>\<open>NaN\<close>) is outside the model. The divisors of
  the engine are the service voltage (240 or 208 in the wizard), the main breaker
  rating (one of the wizard's breaker sizes) and the capacities of the battery table.

  Optional values. A field that may be \<^verbatim>\<open>null\<close> or \<^verbatim>\<open>undefined\<close> is an
  \<^typ>\<open>'a option\<close>; JavaScript's \<^verbatim>\<open>x || d\<close> on a number is \<open>d\<close> for \<open>None\<close> and for
  \<open>Some 0\<close>.

  Names. An object is a record whose fields have the source's names. Where two objects
  share a key, or a key is a name of the logic, the field is prefixed: \<open>load_id\<close> is
  \<^verbatim>\<open>load.id\<close>, \<open>breaker_type\<close> is \<^verbatim>\<open>breaker.type\<close>, \<open>breakdown_ev\<close> is
  \<^verbatim>\<open>breakdown.ev\<close>, \<open>charger_continuousAmps\<close> is the charger's \<^verbatim>\<open>continuousAmps\<close>,
  \<open>result_chargerCount\<close> and \<open>result_availableSlots\<close> are the keys \<^verbatim>\<open>chargerCount\<close> and
  \<^verbatim>\<open>availableSlots\<close> of the EV result, and the \<open>summary_\<close> fields are the keys of
  \<^verbatim>\<open>results.summary\<close>. The local variables of a function body are the bound variables
  of a \<open>let\<close>, or functions of their own where a property speaks of them.
\<close>

subsection \<open>JavaScript helpers\<close>

text \<open>\<^verbatim>\<open>Math.round\<close>: to the nearest integer, a half going up.\<close>

definition js_round :: "rat \<Rightarrow> int" where
  "js_round x = \<lfloor>x + 1 / 2\<rfloor>"

text \<open>\<^verbatim>\<open>x || d\<close> for an optional number.\<close>

definition or_default :: "'a::zero option \<Rightarrow> 'a \<Rightarrow> 'a" where
  "or_default x d = (case x of None \<Rightarrow> d | Some v \<Rightarrow> if v = 0 then d else v)"

text \<open>\<^verbatim>\<open>s.includes(sub)\<close>: \<open>sub\<close> occurs in \<open>s\<close> as a contiguous substring.\<close>

definition js_includes :: "string \<Rightarrow> string \<Rightarrow> bool" where
  "js_includes s sub = sublist sub s"

text \<open>\<^verbatim>\<open>s.replace(pat, rep)\<close> with a string pattern: the first occurrence only.\<close>

fun replace_first :: "string \<Rightarrow> string \<Rightarrow> string \<Rightarrow> string" where
  "replace_first pat rep [] = (if pat = [] then rep else [])"
| "replace_first pat rep (c # cs) =
     (if prefix pat (c # cs) then rep @ drop (length pat) (c # cs)
      else c # replace_first pat rep cs)"

text \<open>A template literal prints an integer in decimal.\<close>

fun show_nat :: "nat \<Rightarrow> string" where
  "show_nat n =
     (if n < 10 then [''0123456789'' ! n]
      else show_nat (n div 10) @ [''0123456789'' ! (n mod 10)])"

declare show_nat.simps [simp del]

definition show_int :: "int \<Rightarrow> string" where
  "show_int i = (if i < 0 then ''-'' @ show_nat (nat (- i)) else show_nat (nat i))"

subsection \<open>Data model\<close>

datatype breaker_type = Standard | Tandem

record breaker_rec =
  poles :: int
  amps :: rat
  breaker_type :: breaker_type
  voltageOverride :: "rat option"

record usage_rec =
  assumedWatts :: rat
  hoursPerDay :: rat
  includeInServiceCalc :: bool
  includeInBatteryCalc :: bool

record motor_rec =
  isMotor :: bool
  lra :: "rat option"

text \<open>A load; \<open>load_id\<close> is the field \<^verbatim>\<open>id\<close>.\<close>

record load =
  load_id :: string
  category :: string
  breaker :: breaker_rec
  usage :: usage_rec
  motor :: motor_rec

datatype tandems_allowed = Allowed | NotAllowed | Unknown

text \<open>The positions \<^verbatim>\<open>'All slots'\<close>, \<^verbatim>\<open>'Bottom half only'\<close> and \<^verbatim>\<open>'Custom'\<close>.\<close>

datatype allowed_positions = AllSlots | BottomHalfOnly | Custom

record tandem_policy =
  allowedPositions :: allowed_positions
  customMaxTandemSlots :: "int option"

record panel_rec =
  totalSlots :: int
  usedSlots :: int
  tandemSlotsUsed :: "int option"
  tandemsAllowed :: tandems_allowed
  tandemPolicy :: tandem_policy

record service_rec =
  serviceVoltage :: rat
  mainBreakerAmps :: rat
  busRatingAmps :: rat

subsection \<open>Panel slots\<close>

record panel_slots =
  availableSlots :: int
  tandemCapableSlots :: int
  canFreeSlotsWithTandems :: bool

text \<open>\<^verbatim>\<open>calculatePanelSlots\<close>, calculations.js lines 16 to 39.\<close>

definition calculatePanelSlots :: "panel_rec \<Rightarrow> panel_slots" where
  "calculatePanelSlots panel =
     (let available = totalSlots panel - usedSlots panel;
          tandemCapable =
            (if tandemsAllowed panel = Allowed then
               (case allowedPositions (tandemPolicy panel) of
                  AllSlots \<Rightarrow> totalSlots panel
                | BottomHalfOnly \<Rightarrow> totalSlots panel div 2
                | Custom \<Rightarrow> or_default (customMaxTandemSlots (tandemPolicy panel)) 0)
             else 0)
      in \<lparr> availableSlots = available,
           tandemCapableSlots = tandemCapable,
           canFreeSlotsWithTandems = (tandemsAllowed panel = Allowed \<and> tandemCapable > 0) \<rparr>)"

text \<open>
  The wizard's own figure, \<^verbatim>\<open>totalAvailableSlots\<close> of Step1Service.jsx line 38 (the same
  expression is in the panel editor of the load table):
  \<^verbatim>\<open>Math.max(0, panel.totalSlots - (panel.usedSlots + (panel.tandemSlotsUsed || 0)))\<close>.
\<close>

definition totalAvailableSlots :: "panel_rec \<Rightarrow> int" where
  "totalAvailableSlots panel =
     max 0 (totalSlots panel - (usedSlots panel + or_default (tandemSlotsUsed panel) 0))"

text \<open>\<^verbatim>\<open>calculateModeledSlots\<close>, calculations.js lines 42 to 52: the loop adds one slot
  for a tandem breaker, two for a two-pole breaker and one otherwise.\<close>

definition load_slots :: "load \<Rightarrow> int" where
  "load_slots l =
     (if breaker_type (breaker l) = Tandem then 1
      else if poles (breaker l) = 2 then 2 else 1)"

definition calculateModeledSlots :: "load list \<Rightarrow> int" where
  "calculateModeledSlots loads = foldl (\<lambda>modeledSlots l. modeledSlots + load_slots l) 0 loads"

subsection \<open>NEC Optional Method\<close>

datatype status = OK | Borderline | Undersized

record breakdown_rec =
  generalAndSmallAppliance :: int
  fixedAppliances :: int
  cooking :: int
  dryer :: int
  hvac :: int
  otherLarge :: int
  breakdown_ev :: int

record nec_result =
  totalDemandVA :: rat
  totalDemandKVA :: rat
  serviceAmps :: rat
  status :: status
  ratio :: int
  breakdown :: breakdown_rec

text \<open>\<^verbatim>\<open>ls.reduce((sum, l) => sum + l.usage.assumedWatts, 0)\<close>.\<close>

definition sumWatts :: "load list \<Rightarrow> rat" where
  "sumWatts ls = foldl (\<lambda>sum l. sum + assumedWatts (usage l)) 0 ls"

text \<open>Step 1, lines 58 to 65. \<^verbatim>\<open>sqFt && sqFt > 0\<close> fails for \<^verbatim>\<open>null\<close> and for 0.\<close>

definition isLighting :: "load \<Rightarrow> bool" where
  "isLighting l = (category l = ''General Lighting/Receptacles'')"

definition generalLoadVA :: "load list \<Rightarrow> rat option \<Rightarrow> rat" where
  "generalLoadVA loads sqFt =
     (let s = (case sqFt of None \<Rightarrow> 0 | Some v \<Rightarrow> v) in
      if s > 0 then s * 3
      else (let lightingLoads = filter isLighting loads;
                g = sumWatts lightingLoads
            in if g = 0 then 4500 else g))"

text \<open>Steps 2 and 3, lines 68 to 78.\<close>

definition smallApplianceVA :: rat where
  "smallApplianceVA = 3000"

definition laundryVA :: rat where
  "laundryVA = 1500"

definition generalTotal :: "load list \<Rightarrow> rat option \<Rightarrow> rat" where
  "generalTotal loads sqFt = generalLoadVA loads sqFt + smallApplianceVA + laundryVA"

definition demandGeneral :: "rat \<Rightarrow> rat" where
  "demandGeneral g =
     (if g \<le> 10000 then g else 10000 + (g - 10000) * (4 / 10))"

text \<open>Step 4, lines 81 to 91.\<close>

definition fixedCategories :: "string list" where
  "fixedCategories =
     [''Dishwasher'', ''Garbage Disposal'', ''Microwave'', ''Clothes Washer'',
      ''Water Heater (Electric)'', ''Dehumidifier'']"

definition isFixed :: "load \<Rightarrow> bool" where
  "isFixed l =
     list_ex (\<lambda>c. js_includes (category l) (replace_first ''Electric '' [] c)) fixedCategories"

definition fixedLoadVA :: "load list \<Rightarrow> rat" where
  "fixedLoadVA loads =
     (let fixedLoads = filter isFixed loads;
          va = sumWatts fixedLoads
      in if length fixedLoads \<ge> 4 then va * (75 / 100) else va)"

text \<open>Step 5, lines 94 to 105.\<close>

definition isCooking :: "load \<Rightarrow> bool" where
  "isCooking l = (category l = ''Range/Oven'' \<or> category l = ''Cooktop'')"

definition cookingDemand :: "load list \<Rightarrow> rat" where
  "cookingDemand loads =
     (let cookingLoads = filter isCooking loads in
      if length cookingLoads > 0 then
        (let totalCookingWatts = sumWatts cookingLoads in
         if length cookingLoads = 1 \<and> totalCookingWatts \<le> 12000 then 8000
         else totalCookingWatts * (65 / 100))
      else 0)"

text \<open>Step 6, lines 108 to 112.\<close>

definition isDryer :: "load \<Rightarrow> bool" where
  "isDryer l = (category l = ''Electric Dryer'')"

definition dryerDemand :: "load list \<Rightarrow> rat" where
  "dryerDemand loads =
     (let dryerLoads = filter isDryer loads in
      if length dryerLoads > 0 then max 5000 (sumWatts dryerLoads) else 0)"

text \<open>Step 7, lines 115 to 124.\<close>

definition isCooling :: "load \<Rightarrow> bool" where
  "isCooling l =
     (category l = ''AC Condenser'' \<or> category l = ''Heat Pump'' \<or> category l = ''Air Handler'')"

definition isHeating :: "load \<Rightarrow> bool" where
  "isHeating l = (js_includes (category l) ''Furnace'' \<or> js_includes (category l) ''Boiler'')"

definition hvacDemand :: "load list \<Rightarrow> rat" where
  "hvacDemand loads =
     (let coolingVA = sumWatts (filter isCooling loads);
          heatingVA = sumWatts (filter isHeating loads)
      in max coolingVA heatingVA)"

text \<open>
  Step 8, lines 127 to 136. \<^verbatim>\<open>cookingLoads.includes(l)\<close> looks for the object \<open>l\<close> of
  \<open>loads\<close> in a filtered copy of \<open>loads\<close>; membership in the list is the same test.
\<close>

definition isEV :: "load \<Rightarrow> bool" where
  "isEV l = (category l = ''EV Charger'')"

definition otherLargeLoads :: "load list \<Rightarrow> load list" where
  "otherLargeLoads loads =
     filter (\<lambda>l. \<not> isFixed l \<and>
                 l \<notin> set (filter isCooking loads) \<and>
                 l \<notin> set (filter isDryer loads) \<and>
                 l \<notin> set (filter isCooling loads) \<and>
                 l \<notin> set (filter isHeating loads) \<and>
                 \<not> isLighting l \<and>
                 \<not> isEV l) loads"

definition otherLargeVA :: "load list \<Rightarrow> rat" where
  "otherLargeVA loads = sumWatts (otherLargeLoads loads)"

definition evVA :: "load list \<Rightarrow> rat" where
  "evVA loads = sumWatts (filter isEV loads)"

text \<open>\<^verbatim>\<open>calculateNECOptionalMethod\<close>, lines 56 to 166; \<open>sqFt\<close> defaults to \<^verbatim>\<open>null\<close>.\<close>

definition nec_status :: "rat \<Rightarrow> status" where
  "nec_status r = (if r > 1 then Undersized else if r > 8 / 10 then Borderline else OK)"

definition calculateNECOptionalMethod ::
    "load list \<Rightarrow> service_rec \<Rightarrow> rat option \<Rightarrow> nec_result" where
  "calculateNECOptionalMethod loads service sqFt =
     (let dGeneral = demandGeneral (generalTotal loads sqFt);
          totalVA = dGeneral + fixedLoadVA loads + cookingDemand loads + dryerDemand loads
                  + hvacDemand loads + otherLargeVA loads + evVA loads;
          sAmps = totalVA / serviceVoltage service;
          r = sAmps / mainBreakerAmps service
      in \<lparr> totalDemandVA = totalVA,
           totalDemandKVA = totalVA / 1000,
           serviceAmps = of_int (js_round (sAmps * 10)) / 10,
           status = nec_status r,
           ratio = js_round (r * 100),
           breakdown =
             \<lparr> generalAndSmallAppliance = js_round dGeneral,
               fixedAppliances = js_round (fixedLoadVA loads),
               cooking = js_round (cookingDemand loads),
               dryer = js_round (dryerDemand loads),
               hvac = js_round (hvacDemand loads),
               otherLarge = js_round (otherLargeVA loads),
               breakdown_ev = js_round (evVA loads) \<rparr> \<rparr>)"

subsection \<open>Practical load\<close>

record practical_load =
  totalRunningWatts :: rat
  totalRunningKW :: rat
  totalDailyWh :: rat
  totalDailyKWh :: rat
  largestMotorWatts :: rat
  largestMotorLRA :: rat
  motorLoads :: nat

text \<open>\<^verbatim>\<open>calculatePracticalLoad\<close>, lines 170 to 192.\<close>

definition calculatePracticalLoad :: "load list \<Rightarrow> string list option \<Rightarrow> practical_load" where
  "calculatePracticalLoad loads includeLoadIds =
     (let filteredLoads =
            (case includeLoadIds of
               Some ids \<Rightarrow> filter (\<lambda>l. load_id l \<in> set ids) loads
             | None \<Rightarrow> loads);
          runningWatts = sumWatts filteredLoads;
          dailyWh =
            foldl (\<lambda>sum l. sum + assumedWatts (usage l) * hoursPerDay (usage l)) 0 filteredLoads;
          motors = filter (\<lambda>l. isMotor (motor l)) filteredLoads
      in \<lparr> totalRunningWatts = runningWatts,
           totalRunningKW = runningWatts / 1000,
           totalDailyWh = dailyWh,
           totalDailyKWh = dailyWh / 1000,
           largestMotorWatts = foldl (\<lambda>m l. max m (assumedWatts (usage l))) 0 motors,
           largestMotorLRA = foldl (\<lambda>m l. max m (or_default (lra (motor l)) 0)) 0 motors,
           motorLoads = length motors \<rparr>)"

subsection \<open>Battery sizing\<close>

text \<open>
  \<^verbatim>\<open>BATTERY_SPECS\<close> is imported from \<^verbatim>\<open>data/loadLibrary\<close>, which is not among the
  sources, so the table is a parameter of the model. A product is a record of the
  fields the engine reads; the engine reads \<open>maxUnits\<close> of the two Enphase products,
  \<open>motorStartLRA\<close> of the 10C and of the PW3, \<open>maxLeaders\<close> of the PW3 and
  \<open>maxPerLeader\<close> of the expansion pack only.
\<close>

record product_spec =
  usableKWh :: rat
  continuousKW :: rat
  motorStartLRA :: rat
  maxUnits :: int
  maxLeaders :: int
  maxPerLeader :: int

record battery_specs =
  spec_enphase5P :: product_spec
  spec_enphase10C :: product_spec
  spec_teslaPW3 :: product_spec
  spec_teslaPW3Expansion :: product_spec

record selection =
  sel_include :: bool
  sel_hoursPerDay :: rat

text \<open>The options; the caller's missing \<^verbatim>\<open>solarOffsetPercent\<close> is the default 0.\<close>

record options =
  includeLoadIds :: "string list option"
  solarOffsetPercent :: rat
  proposedEVLoads :: "load list option"
  partialSelections :: "(string \<Rightarrow> selection option) option"

text \<open>Lines 199 to 220: the selection, the proposed chargers, the custom hours.\<close>

definition filteredLoads :: "load list \<Rightarrow> options \<Rightarrow> load list" where
  "filteredLoads loads opts =
     (let selected =
            filter (\<lambda>l. case includeLoadIds opts of
                          Some ids \<Rightarrow> load_id l \<in> set ids
                        | None \<Rightarrow> includeInBatteryCalc (usage l)) loads;
          withEV =
            (case proposedEVLoads opts of
               Some evs \<Rightarrow> if length evs > 0 then selected @ evs else selected
             | None \<Rightarrow> selected)
      in case partialSelections opts of
           Some sels \<Rightarrow>
             map (\<lambda>l. case sels (load_id l) of
                         Some sel \<Rightarrow> l\<lparr>usage := (usage l)\<lparr>hoursPerDay := sel_hoursPerDay sel\<rparr>\<rparr>
                       | None \<Rightarrow> l) withEV
         | None \<Rightarrow> withEV)"

text \<open>Lines 222 to 229: the energy to store, after the solar offset.\<close>

definition totalEnergyNeededKWh :: "load list \<Rightarrow> rat \<Rightarrow> options \<Rightarrow> rat" where
  "totalEnergyNeededKWh loads backupDays opts =
     (let practicalLoad = calculatePracticalLoad (filteredLoads loads opts) None;
          energy = totalDailyKWh practicalLoad * backupDays;
          offset = (if solarOffsetPercent opts > 0
                    then energy * (1 - solarOffsetPercent opts / 100) else energy)
      in max 0 offset)"

text \<open>Lines 231 to 235.\<close>

definition peakPowerKW :: "load list \<Rightarrow> options \<Rightarrow> rat" where
  "peakPowerKW loads opts =
     totalRunningKW (calculatePracticalLoad (filteredLoads loads opts) None)"

definition largestLRA :: "load list \<Rightarrow> options \<Rightarrow> rat" where
  "largestLRA loads opts =
     foldl (\<lambda>m l. max m (or_default (lra (motor l)) 0)) 0
       (filter (\<lambda>l. isMotor (motor l)) (filteredLoads loads opts))"

text \<open>\<^verbatim>\<open>!l.motor.lra\<close> holds for a missing rating and for the rating 0.\<close>

definition hasUnknownMotorLRA :: "load list \<Rightarrow> options \<Rightarrow> bool" where
  "hasUnknownMotorLRA loads opts =
     list_ex (\<lambda>l. or_default (lra (motor l)) 0 = 0 \<and> isMotor (motor l))
       (filter (\<lambda>l. isMotor (motor l)) (filteredLoads loads opts))"

text \<open>\<^verbatim>\<open>checkFeasibility\<close>, lines 240 to 245: the flag and the reason.\<close>

definition checkFeasibility :: "int \<Rightarrow> int \<Rightarrow> string \<Rightarrow> bool \<times> string option" where
  "checkFeasibility n maxN label =
     (if n > maxN
      then (True, Some (''Exceeds maximum configuration ('' @ show_int maxN @ '' '' @ label
                        @ '' max)''))
      else (False, None))"

datatype limited_by = Energy | Power | MotorStart

text \<open>
  The results. The keys that several configurations share are the fields of a common
  parent record. The 5P result has no key \<^verbatim>\<open>forMotorStart\<close>: the field is \<open>None\<close> there.
\<close>

record config_result =
  totalKWh :: rat
  totalKW :: rat
  notFeasible :: bool
  reason :: "string option"

record single_result = config_result +
  count :: int
  forEnergy :: int
  forPower :: int
  forMotorStart :: "int option"
  limitedBy :: limited_by
  motorStartWarning :: "string option"

record multi_result = config_result +
  totalUnits :: int

record mixed_result = multi_result +
  count10C :: int
  count5P :: int

record tesla_result = multi_result +
  leaders :: int
  expansions :: int
  exceedsMax :: bool

record summary_rec =
  summary_totalEnergyNeededKWh :: rat
  summary_peakPowerKW :: rat
  summary_backupDays :: rat
  summary_solarOffsetPercent :: rat
  summary_loadCount :: nat
  summary_largestLRA :: rat
  summary_hasUnknownMotorLRA :: bool

record battery_results =
  enphase5P :: single_result
  enphase10C :: single_result
  enphase_mixed :: mixed_result
  teslaPW3Only :: single_result
  teslaPW3WithExpansions :: tesla_result
  summary :: summary_rec

text \<open>
  The five configurations, each a function of the table, the energy \<open>e\<close>, the peak power
  \<open>p\<close>, the largest locked-rotor current \<open>l\<close> and the unknown-rating flag \<open>u\<close>.
\<close>

text \<open>Enphase 5P, lines 248 to 262.\<close>

definition sizeEnphase5P :: "battery_specs \<Rightarrow> rat \<Rightarrow> rat \<Rightarrow> bool \<Rightarrow> single_result" where
  "sizeEnphase5P specs e p u =
     (let e5p = spec_enphase5P specs;
          e5pForEnergy = \<lceil>e / usableKWh e5p\<rceil>;
          e5pForPower = \<lceil>p / continuousKW e5p\<rceil>;
          e5pCount = max (max e5pForEnergy e5pForPower) 1;
          e5pFeasibility = checkFeasibility e5pCount (maxUnits e5p) ''units''
      in \<lparr> totalKWh = of_int (min e5pCount (maxUnits e5p)) * usableKWh e5p,
           totalKW = of_int (min e5pCount (maxUnits e5p)) * continuousKW e5p,
           notFeasible = fst e5pFeasibility,
           reason = snd e5pFeasibility,
           count = (if fst e5pFeasibility then e5pCount else min e5pCount (maxUnits e5p)),
           forEnergy = e5pForEnergy,
           forPower = e5pForPower,
           forMotorStart = None,
           limitedBy = (if e5pForEnergy \<ge> e5pForPower then Energy else Power),
           motorStartWarning =
             (if u then Some ''Motor start capability not rated for 5P. Verify with Enphase.''
              else None) \<rparr>)"

text \<open>The motor-start count of lines 268 to 271 and 310 to 313.\<close>

definition forMotor :: "rat \<Rightarrow> product_spec \<Rightarrow> int" where
  "forMotor l spec = (if l > 0 then \<lceil>l / motorStartLRA spec\<rceil> else 0)"

text \<open>Enphase 10C, lines 265 to 286.\<close>

definition sizeEnphase10C ::
    "battery_specs \<Rightarrow> rat \<Rightarrow> rat \<Rightarrow> rat \<Rightarrow> bool \<Rightarrow> single_result" where
  "sizeEnphase10C specs e p l u =
     (let e10c = spec_enphase10C specs;
          e10cForEnergy = \<lceil>e / usableKWh e10c\<rceil>;
          e10cForPower = \<lceil>p / continuousKW e10c\<rceil>;
          e10cForMotor = forMotor l e10c;
          e10cCount = max (max (max e10cForEnergy e10cForPower) e10cForMotor) 1;
          e10cFeasibility = checkFeasibility e10cCount (maxUnits e10c) ''units'';
          e10cLimitedBy =
            (if e10cForEnergy \<ge> e10cForPower \<and> e10cForEnergy \<ge> e10cForMotor then Energy
             else if e10cForPower \<ge> e10cForMotor then Power else MotorStart)
      in \<lparr> totalKWh = of_int (min e10cCount (maxUnits e10c)) * usableKWh e10c,
           totalKW = of_int (min e10cCount (maxUnits e10c)) * continuousKW e10c,
           notFeasible = fst e10cFeasibility,
           reason = snd e10cFeasibility,
           count = (if fst e10cFeasibility then e10cCount else min e10cCount (maxUnits e10c)),
           forEnergy = e10cForEnergy,
           forPower = e10cForPower,
           forMotorStart = Some e10cForMotor,
           limitedBy = e10cLimitedBy,
           motorStartWarning =
             (if u then Some ''Some motor loads have unknown LRA. Conservative estimates applied.''
              else None) \<rparr>)"

text \<open>Enphase mixed, lines 289 to 303.\<close>

definition sizeEnphaseMixed :: "battery_specs \<Rightarrow> rat \<Rightarrow> rat \<Rightarrow> rat \<Rightarrow> mixed_result" where
  "sizeEnphaseMixed specs e p l =
     (let e5p = spec_enphase5P specs;
          e10c = spec_enphase10C specs;
          e10cForPower = \<lceil>p / continuousKW e10c\<rceil>;
          e10cForMotor = forMotor l e10c;
          mixedPowerUnits10C = max (max e10cForPower e10cForMotor) 1;
          mixedEnergyFrom10C = of_int mixedPowerUnits10C * usableKWh e10c;
          remainingEnergy = max 0 (e - mixedEnergyFrom10C);
          additional5P = (if remainingEnergy > 0 then \<lceil>remainingEnergy / usableKWh e5p\<rceil> else 0);
          mixedTotal = mixedPowerUnits10C + additional5P;
          mixedFeasible = (mixedTotal \<le> maxUnits e10c + maxUnits e5p)
      in \<lparr> totalKWh = of_int mixedPowerUnits10C * usableKWh e10c
                     + of_int additional5P * usableKWh e5p,
           totalKW = of_int mixedPowerUnits10C * continuousKW e10c
                     + of_int additional5P * continuousKW e5p,
           notFeasible = (\<not> mixedFeasible),
           reason = (if \<not> mixedFeasible then Some ''Exceeds maximum combined unit count''
                     else None),
           totalUnits = mixedTotal,
           count10C = mixedPowerUnits10C,
           count5P = additional5P \<rparr>)"

text \<open>The Tesla leaders, lines 309 to 315.\<close>

definition pw3Leaders :: "battery_specs \<Rightarrow> rat \<Rightarrow> rat \<Rightarrow> int" where
  "pw3Leaders specs p l =
     (let pw3 = spec_teslaPW3 specs;
          pw3ForPower = \<lceil>p / continuousKW pw3\<rceil>;
          pw3ForMotor = forMotor l pw3
      in max (max pw3ForPower pw3ForMotor) 1)"

definition pw3LeadersCapped :: "battery_specs \<Rightarrow> rat \<Rightarrow> rat \<Rightarrow> int" where
  "pw3LeadersCapped specs p l = min (pw3Leaders specs p l) (maxLeaders (spec_teslaPW3 specs))"

text \<open>Tesla PW3 only, lines 318 to 334.\<close>

definition sizeTeslaPW3Only ::
    "battery_specs \<Rightarrow> rat \<Rightarrow> rat \<Rightarrow> rat \<Rightarrow> bool \<Rightarrow> single_result" where
  "sizeTeslaPW3Only specs e p l u =
     (let pw3 = spec_teslaPW3 specs;
          pw3ForPower = \<lceil>p / continuousKW pw3\<rceil>;
          pw3ForMotor = forMotor l pw3;
          pw3OnlyForEnergy = \<lceil>e / usableKWh pw3\<rceil>;
          pw3OnlyCount = max pw3OnlyForEnergy (pw3LeadersCapped specs p l);
          pw3OnlyFeasibility = checkFeasibility pw3OnlyCount (maxLeaders pw3) ''PW3'';
          pw3OnlyCapped = min pw3OnlyCount (maxLeaders pw3);
          pw3OnlyLimitedBy =
            (if pw3OnlyForEnergy \<ge> pw3ForPower \<and> pw3OnlyForEnergy \<ge> pw3ForMotor then Energy
             else if pw3ForPower \<ge> pw3ForMotor then Power else MotorStart)
      in \<lparr> totalKWh = of_int pw3OnlyCapped * usableKWh pw3,
           totalKW = of_int pw3OnlyCapped * continuousKW pw3,
           notFeasible = fst pw3OnlyFeasibility,
           reason = snd pw3OnlyFeasibility,
           count = (if fst pw3OnlyFeasibility then pw3OnlyCount else pw3OnlyCapped),
           forEnergy = pw3OnlyForEnergy,
           forPower = pw3ForPower,
           forMotorStart = Some pw3ForMotor,
           limitedBy = pw3OnlyLimitedBy,
           motorStartWarning =
             (if u then Some ''Some motor loads have unknown LRA. Conservative estimates applied.''
              else None) \<rparr>)"

text \<open>Tesla PW3 with expansion packs, lines 337 to 354.\<close>

definition sizeTeslaPW3WithExpansions ::
    "battery_specs \<Rightarrow> rat \<Rightarrow> rat \<Rightarrow> rat \<Rightarrow> tesla_result" where
  "sizeTeslaPW3WithExpansions specs e p l =
     (let pw3 = spec_teslaPW3 specs;
          pw3exp = spec_teslaPW3Expansion specs;
          capped = pw3LeadersCapped specs p l;
          leaderEnergyKWh = of_int capped * usableKWh pw3;
          remainingEnergyTesla = max 0 (e - leaderEnergyKWh);
          expansionsNeeded =
            (if remainingEnergyTesla > 0 then \<lceil>remainingEnergyTesla / usableKWh pw3exp\<rceil>
             else 0);
          maxExpansions = capped * maxPerLeader pw3exp;
          expansionsCapped = min expansionsNeeded maxExpansions;
          totalTeslaUnits = capped + expansionsCapped;
          teslaExceedsMax = (expansionsNeeded > maxExpansions)
      in \<lparr> totalKWh = of_int capped * usableKWh pw3
                     + of_int expansionsCapped * usableKWh pw3exp,
           totalKW = of_int capped * continuousKW pw3,
           notFeasible = teslaExceedsMax,
           reason =
             (if teslaExceedsMax
              then Some (''Needs '' @ show_int expansionsNeeded @ '' expansions but max is ''
                         @ show_int maxExpansions @ '' ('' @ show_int (maxPerLeader pw3exp)
                         @ '' per leader)'')
              else None),
           totalUnits = totalTeslaUnits,
           leaders = capped,
           expansions = expansionsCapped,
           exceedsMax = teslaExceedsMax \<rparr>)"

text \<open>\<^verbatim>\<open>calculateBatterySizing\<close>, lines 196 to 367; the table is its first argument.\<close>

definition calculateBatterySizing ::
    "battery_specs \<Rightarrow> load list \<Rightarrow> rat \<Rightarrow> options \<Rightarrow> battery_results" where
  "calculateBatterySizing specs loads backupDays opts =
     (let e = totalEnergyNeededKWh loads backupDays opts;
          p = peakPowerKW loads opts;
          l = largestLRA loads opts;
          u = hasUnknownMotorLRA loads opts
      in \<lparr> enphase5P = sizeEnphase5P specs e p u,
           enphase10C = sizeEnphase10C specs e p l u,
           enphase_mixed = sizeEnphaseMixed specs e p l,
           teslaPW3Only = sizeTeslaPW3Only specs e p l u,
           teslaPW3WithExpansions = sizeTeslaPW3WithExpansions specs e p l,
           summary =
             \<lparr> summary_totalEnergyNeededKWh = of_int (js_round (e * 10)) / 10,
               summary_peakPowerKW = of_int (js_round (p * 10)) / 10,
               summary_backupDays = backupDays,
               summary_solarOffsetPercent = solarOffsetPercent opts,
               summary_loadCount = length (filteredLoads loads opts),
               summary_largestLRA = l,
               summary_hasUnknownMotorLRA = u \<rparr> \<rparr>)"

subsection \<open>EV feasibility\<close>

text \<open>A charger of the catalogue, or the custom charger (\<open>isCustom\<close>).\<close>

record charger_rec =
  isCustom :: bool
  charger_continuousAmps :: rat
  recommendedBreakerAmps :: rat

record ev_rec =
  chargerOption :: "charger_rec option"
  customContinuousAmps :: "rat option"
  chargerCount :: "nat option"

record project =
  service :: service_rec
  panel :: panel_rec
  ev :: ev_rec
  loads :: "load list"

text \<open>The five recommendation strings of lines 407 to 418.\<close>

datatype recommendation =
    ServiceUpgradeRecommended
  | SubpanelRecommended
  | RequiresTandemsToFreeSpace
  | FeasibleButBorderlineCapacity
  | AddAsIs

record ev_result =
  continuousAmps :: rat
  breakerAmps :: rat
  evWattsEach :: rat
  evWattsTotal :: rat
  evWatts :: rat
  result_chargerCount :: nat
  slotsNeeded :: int
  hasSpace :: bool
  canUseTandems :: bool
  necWithoutEV :: nec_result
  necWithEV :: nec_result
  recommendation :: recommendation
  result_availableSlots :: int

text \<open>
  The synthetic load of lines 391 to 396. The source gives it a category, the watts,
  two poles and no motor; the other fields of the record are absent there and are
  never read by \<^verbatim>\<open>calculateNECOptionalMethod\<close>.
\<close>

definition evSyntheticLoad :: "rat \<Rightarrow> load" where
  "evSyntheticLoad watts =
     \<lparr> load_id = [],
       category = ''EV Charger'',
       breaker = \<lparr> poles = 2, amps = 0, breaker_type = Standard, voltageOverride = None \<rparr>,
       usage = \<lparr> assumedWatts = watts, hoursPerDay = 0,
                 includeInServiceCalc = True, includeInBatteryCalc = False \<rparr>,
       motor = \<lparr> isMotor = False, lra = None \<rparr> \<rparr>"

text \<open>The chain of lines 407 to 418.\<close>

definition recommend :: "status \<Rightarrow> bool \<Rightarrow> bool \<Rightarrow> recommendation" where
  "recommend withEVStatus space canFree =
     (if withEVStatus = Undersized then ServiceUpgradeRecommended
      else if \<not> space \<and> \<not> canFree then SubpanelRecommended
      else if \<not> space \<and> canFree then RequiresTandemsToFreeSpace
      else if withEVStatus = Borderline then FeasibleButBorderlineCapacity
      else AddAsIs)"

text \<open>\<^verbatim>\<open>calculateEVFeasibility\<close>, lines 370 to 435; \<^verbatim>\<open>null\<close> is \<open>None\<close>.\<close>

definition calculateEVFeasibility :: "project \<Rightarrow> ev_result option" where
  "calculateEVFeasibility proj =
     (case chargerOption (ev proj) of
        None \<Rightarrow> None
      | Some charger \<Rightarrow>
          (let amps' = (if isCustom charger then or_default (customContinuousAmps (ev proj)) 0
                        else charger_continuousAmps charger);
               breakerA = (if isCustom charger then of_int \<lceil>amps' * (125 / 100) / 5\<rceil> * 5
                           else recommendedBreakerAmps charger);
               n = or_default (chargerCount (ev proj)) 1;
               wattsEach = amps' * serviceVoltage (service proj);
               wattsTotal = wattsEach * of_nat n;
               necResult = calculateNECOptionalMethod (loads proj) (service proj) None;
               evSyntheticLoads = replicate n (evSyntheticLoad wattsEach);
               withEV = calculateNECOptionalMethod (loads proj @ evSyntheticLoads)
                          (service proj) None;
               modeledUsedSlots = (if length (loads proj) > 0
                                   then calculateModeledSlots (loads proj)
                                   else usedSlots (panel proj));
               computedAvailableSlots = max 0 (totalSlots (panel proj) - modeledUsedSlots);
               panelSlots = calculatePanelSlots (panel proj);
               needed = 2 * int n;
               space = (computedAvailableSlots \<ge> needed)
           in Some \<lparr> continuousAmps = amps',
                     breakerAmps = breakerA,
                     evWattsEach = wattsEach,
                     evWattsTotal = wattsTotal,
                     evWatts = wattsTotal,
                     result_chargerCount = n,
                     slotsNeeded = needed,
                     hasSpace = space,
                     canUseTandems = canFreeSlotsWithTandems panelSlots,
                     necWithoutEV = necResult,
                     necWithEV = withEV,
                     recommendation =
                       recommend (status withEV) space (canFreeSlotsWithTandems panelSlots),
                     result_availableSlots = computedAvailableSlots \<rparr>))"

subsection \<open>Vocabulary of the properties\<close>

text \<open>Raising the watts of the load at position \<open>i\<close>, everything else fixed.\<close>

definition setWatts :: "load \<Rightarrow> rat \<Rightarrow> load" where
  "setWatts l w = l\<lparr>usage := (usage l)\<lparr>assumedWatts := w\<rparr>\<rparr>"

definition increaseLoad :: "load list \<Rightarrow> nat \<Rightarrow> rat \<Rightarrow> load list" where
  "increaseLoad ls i w = ls[i := setWatts (ls ! i) w]"

text \<open>A load that falls into none of the buckets of steps 1 and 4 to 7 and is no charger.\<close>

definition inNoBucket :: "load \<Rightarrow> bool" where
  "inNoBucket l =
     (\<not> isFixed l \<and> \<not> isCooking l \<and> \<not> isDryer l \<and> \<not> isCooling l \<and> \<not> isHeating l \<and>
      \<not> isLighting l \<and> \<not> isEV l)"

text \<open>
  The two cliffs of the pipeline. The only cooking load goes from at most 12000 W to
  more than 12000 W but less than 8000 / 0.65 W: the flat 8000 VA gives way to 65 percent
  of the watts. Without a positive square footage, the lighting loads sum to 0 and one
  of them rises by less than 4500 W: the fallback of 4500 VA gives way to the sum.
\<close>

definition cookingCliff :: "load list \<Rightarrow> nat \<Rightarrow> rat \<Rightarrow> bool" where
  "cookingCliff ls i w =
     (isCooking (ls ! i) \<and> length (filter isCooking ls) = 1 \<and>
      assumedWatts (usage (ls ! i)) \<le> 12000 \<and> 12000 < w \<and> w * (65 / 100) < 8000)"

definition lightingCliff :: "load list \<Rightarrow> rat option \<Rightarrow> nat \<Rightarrow> rat \<Rightarrow> bool" where
  "lightingCliff ls sqFt i w =
     ((case sqFt of None \<Rightarrow> True | Some s \<Rightarrow> s \<le> 0) \<and> isLighting (ls ! i) \<and>
      sumWatts (filter isLighting ls) = 0 \<and>
      assumedWatts (usage (ls ! i)) < w \<and> w - assumedWatts (usage (ls ! i)) < 4500)"

text \<open>
  The recommendation tiers as the specification lists them, "first match wins, in
  order": each tier is its condition and its recommendation.
\<close>

definition spec_tiers :: "status \<Rightarrow> bool \<Rightarrow> bool \<Rightarrow> (bool \<times> recommendation) list" where
  "spec_tiers withEVStatus space canFree =
     [(withEVStatus = Undersized, ServiceUpgradeRecommended),
      (\<not> space \<and> \<not> canFree, SubpanelRecommended),
      (\<not> space \<and> canFree, RequiresTandemsToFreeSpace),
      (space \<and> withEVStatus = Borderline, FeasibleButBorderlineCapacity),
      (True, AddAsIs)]"

fun first_match :: "(bool \<times> 'a) list \<Rightarrow> 'a option" where
  "first_match [] = None"
| "first_match ((c, r) # rs) = (if c then Some r else first_match rs)"

subsection \<open>Concrete inputs\<close>

definition example_load :: "string \<Rightarrow> rat \<Rightarrow> rat \<Rightarrow> load" where
  "example_load c w h =
     \<lparr> load_id = ''load_1'', category = c,
       breaker = \<lparr> poles = 1, amps = 15, breaker_type = Standard, voltageOverride = None \<rparr>,
       usage = \<lparr> assumedWatts = w, hoursPerDay = h,
                 includeInServiceCalc = True, includeInBatteryCalc = True \<rparr>,
       motor = \<lparr> isMotor = False, lra = None \<rparr> \<rparr>"

text \<open>The service and the panel of \<^verbatim>\<open>createInitialProject\<close>, the panel with 45 used slots.\<close>

definition service_240_200 :: service_rec where
  "service_240_200 = \<lparr> serviceVoltage = 240, mainBreakerAmps = 200, busRatingAmps = 200 \<rparr>"

definition panel_40_45 :: panel_rec where
  "panel_40_45 =
     \<lparr> totalSlots = 40, usedSlots = 45, tandemSlotsUsed = Some 0,
       tandemsAllowed = Unknown,
       tandemPolicy = \<lparr> allowedPositions = AllSlots, customMaxTandemSlots = None \<rparr> \<rparr>"

definition other_1500 :: load where
  "other_1500 = example_load ''Other'' 1500 2"

definition lighting_5501 :: load where
  "lighting_5501 = example_load ''General Lighting/Receptacles'' 5501 5"

definition range_12000 :: load where
  "range_12000 = example_load ''Range/Oven'' 12000 1"

text \<open>
  A battery table for the concrete runs. The limits of the Tesla products are those
  the wizard prints ("Max 3 expansions per PW3 leader. Max 4 PW3 leaders total."); the
  capacities are representative figures. The fields a product does not have are 0 and
  are never read.
\<close>

definition example_specs :: battery_specs where
  "example_specs =
     \<lparr> spec_enphase5P = \<lparr> usableKWh = 5, continuousKW = 384 / 100, motorStartLRA = 0,
                          maxUnits = 8, maxLeaders = 0, maxPerLeader = 0 \<rparr>,
       spec_enphase10C = \<lparr> usableKWh = 10, continuousKW = 708 / 100, motorStartLRA = 90,
                           maxUnits = 4, maxLeaders = 0, maxPerLeader = 0 \<rparr>,
       spec_teslaPW3 = \<lparr> usableKWh = 135 / 10, continuousKW = 115 / 10, motorStartLRA = 185,
                         maxUnits = 0, maxLeaders = 4, maxPerLeader = 0 \<rparr>,
       spec_teslaPW3Expansion = \<lparr> usableKWh = 135 / 10, continuousKW = 0, motorStartLRA = 0,
                                  maxUnits = 0, maxLeaders = 0, maxPerLeader = 3 \<rparr> \<rparr>"

definition default_options :: options where
  "default_options =
     \<lparr> includeLoadIds = None, solarOffsetPercent = 0, proposedEVLoads = None,
       partialSelections = None \<rparr>"

text \<open>Loads that run 50 kW and 58 kW for half an hour a day.\<close>

definition loads_50kW :: "load list" where
  "loads_50kW = [example_load ''Other'' 50000 (1 / 2)]"

definition loads_58kW :: "load list" where
  "loads_58kW = [example_load ''Other'' 30000 (1 / 2), example_load ''Other'' 28000 (1 / 2)]"

definition no_charger :: ev_rec where
  "no_charger = \<lparr> chargerOption = None, customContinuousAmps = Some 48, chargerCount = Some 2 \<rparr>"

definition charger_48 :: ev_rec where
  "charger_48 =
     \<lparr> chargerOption = Some \<lparr> isCustom = False, charger_continuousAmps = 48,
                               recommendedBreakerAmps = 60 \<rparr>,
       customContinuousAmps = None, chargerCount = Some 1 \<rparr>"

definition example_project :: "ev_rec \<Rightarrow> load list \<Rightarrow> project" where
  "example_project e ls =
     \<lparr> service = service_240_200, panel = panel_40_45, ev = e, loads = ls \<rparr>"

text \<open>Further loads, a 100 A service, a full panel without tandems and a project on them.\<close>

definition lighting_5500 :: load where
  "lighting_5500 = example_load ''General Lighting/Receptacles'' 5500 5"

definition other_10000 :: load where
  "other_10000 = example_load ''Other'' 10000 2"

definition other_1000_24h :: load where
  "other_1000_24h = example_load ''Other'' 1000 24"

definition condenser_200 :: load where
  "condenser_200 =
     \<lparr> load_id = ''load_2'', category = ''AC Condenser'',
       breaker = \<lparr> poles = 2, amps = 30, breaker_type = Standard, voltageOverride = None \<rparr>,
       usage = \<lparr> assumedWatts = 3000, hoursPerDay = 16,
                 includeInServiceCalc = True, includeInBatteryCalc = True \<rparr>,
       motor = \<lparr> isMotor = True, lra = Some 200 \<rparr> \<rparr>"

definition service_240_100 :: service_rec where
  "service_240_100 = \<lparr> serviceVoltage = 240, mainBreakerAmps = 100, busRatingAmps = 100 \<rparr>"

definition panel_1_slot :: panel_rec where
  "panel_1_slot =
     \<lparr> totalSlots = 1, usedSlots = 1, tandemSlotsUsed = None,
       tandemsAllowed = NotAllowed,
       tandemPolicy = \<lparr> allowedPositions = AllSlots, customMaxTandemSlots = None \<rparr> \<rparr>"

definition undersized_project :: project where
  "undersized_project =
     \<lparr> service = service_240_100, panel = panel_1_slot, ev = charger_48,
       loads = [other_10000] \<rparr>"

section \<open>Panel slots: the available count\<close>

lemma calculatePanelSlots_available:
  "availableSlots (calculatePanelSlots pn) = totalSlots pn - usedSlots pn"
  by (simp add: calculatePanelSlots_def Let_def)

lemma totalAvailableSlots_nonneg: "0 \<le> totalAvailableSlots pn"
  by (simp add: totalAvailableSlots_def)

text \<open>
  C1. The claim: \<open>availableSlots\<close> is \<open>totalSlots - (usedSlots + tandemSlotsUsed)\<close>
  floored at 0, and 0 for the panel with 40 slots and 45 used. On that panel
  \<^verbatim>\<open>calculatePanelSlots\<close> returns \<open>-5\<close>: it subtracts \<open>usedSlots\<close> only and does not
  floor, while the wizard's \<open>totalAvailableSlots\<close> on the same panel is the claimed 0.
\<close>

theorem C1_calculatePanelSlots_negative:
  "availableSlots (calculatePanelSlots panel_40_45) = - 5 \<and>
   totalAvailableSlots panel_40_45 = 0"
  by (simp add: calculatePanelSlots_def totalAvailableSlots_def panel_40_45_def
      or_default_def Let_def)

section \<open>NEC demand\<close>

lemma nec_total:
  "totalDemandVA (calculateNECOptionalMethod ls svc sqFt) =
     demandGeneral (generalTotal ls sqFt) + fixedLoadVA ls + cookingDemand ls + dryerDemand ls
     + hvacDemand ls + otherLargeVA ls + evVA ls"
  by (simp add: calculateNECOptionalMethod_def Let_def)

lemma nec_general_breakdown:
  "generalAndSmallAppliance (breakdown (calculateNECOptionalMethod ls svc sqFt)) =
     js_round (demandGeneral (generalTotal ls sqFt))"
  by (simp add: calculateNECOptionalMethod_def Let_def)

lemma demandGeneral_low: "g \<le> 10000 \<Longrightarrow> demandGeneral g = g"
  by (simp add: demandGeneral_def)

lemma demandGeneral_high: "10000 < g \<Longrightarrow> demandGeneral g = 10000 + (g - 10000) * (4 / 10)"
  by (simp add: demandGeneral_def)

subsection \<open>The general demand factor\<close>

lemma lighting_totals:
  "generalLoadVA [lighting_5500] None = 5500"
  "generalLoadVA [lighting_5501] None = 5501"
  by (simp_all add: generalLoadVA_def isLighting_def sumWatts_def lighting_5500_def
      lighting_5501_def example_load_def)

lemma lighting_rest:
  "fixedLoadVA [lighting_5500] = 0" "cookingDemand [lighting_5500] = 0"
  "dryerDemand [lighting_5500] = 0" "hvacDemand [lighting_5500] = 0"
  "otherLargeVA [lighting_5500] = 0" "evVA [lighting_5500] = 0"
  "fixedLoadVA [lighting_5501] = 0" "cookingDemand [lighting_5501] = 0"
  "dryerDemand [lighting_5501] = 0" "hvacDemand [lighting_5501] = 0"
  "otherLargeVA [lighting_5501] = 0" "evVA [lighting_5501] = 0"
  by (simp_all add: fixedLoadVA_def cookingDemand_def dryerDemand_def hvacDemand_def
      otherLargeVA_def otherLargeLoads_def evVA_def sumWatts_def example_load_def
      lighting_5500_def lighting_5501_def
      isFixed_def fixedCategories_def js_includes_def sublist_Cons_right isCooking_def
      isDryer_def isCooling_def isHeating_def isLighting_def isEV_def)

lemma demandGeneral_min_max: "demandGeneral g = min g 10000 + (4 / 10) * max 0 (g - 10000)"
  by (simp add: demandGeneral_def min_def max_def)

text \<open>
  C8. In \<^verbatim>\<open>calculateNECOptionalMethod\<close> the demand on \<open>generalTotal\<close> (general lighting
  plus 3000 plus 1500 VA) is 100 percent of its first 10000 VA and 40 percent of the
  rest: the total demand is that figure plus the other buckets, and the breakdown
  reports it rounded. Up to 10000 VA the demand is \<open>generalTotal\<close> itself; a lighting load
  of 5500 W (\<open>generalTotal\<close> 10000) gives a total demand of 10000 VA, and one of 5501 W
  (\<open>generalTotal\<close> 10001) gives 10000.4 VA.
\<close>

theorem C8_general_demand_factor:
  "demandGeneral g = min g 10000 + (4 / 10) * max 0 (g - 10000) \<and>
   (g \<le> 10000 \<longrightarrow> demandGeneral g = g) \<and>
   demandGeneral 10000 = 10000 \<and>
   demandGeneral 10001 = 100004 / 10 \<and>
   totalDemandVA (calculateNECOptionalMethod ls svc sqFt) =
     min (generalLoadVA ls sqFt + 3000 + 1500) 10000
     + (4 / 10) * max 0 (generalLoadVA ls sqFt + 3000 + 1500 - 10000)
     + fixedLoadVA ls + cookingDemand ls + dryerDemand ls + hvacDemand ls
     + otherLargeVA ls + evVA ls \<and>
   generalAndSmallAppliance (breakdown (calculateNECOptionalMethod ls svc sqFt)) =
     js_round (min (generalLoadVA ls sqFt + 3000 + 1500) 10000
               + (4 / 10) * max 0 (generalLoadVA ls sqFt + 3000 + 1500 - 10000)) \<and>
   totalDemandVA (calculateNECOptionalMethod [lighting_5500] svc None) = 10000 \<and>
   totalDemandVA (calculateNECOptionalMethod [lighting_5501] svc None) = 100004 / 10"
proof -
  have a: "demandGeneral g = min g 10000 + (4 / 10) * max 0 (g - 10000)"
    by (rule demandGeneral_min_max)
  have b: "g \<le> 10000 \<longrightarrow> demandGeneral g = g"
    by (simp add: demandGeneral_def)
  have c: "demandGeneral 10000 = 10000" "demandGeneral 10001 = 100004 / 10"
    by (simp_all add: demandGeneral_def)
  have gt: "generalTotal ls sqFt = generalLoadVA ls sqFt + 3000 + 1500" for ls sqFt
    by (simp add: generalTotal_def smallApplianceVA_def laundryVA_def)
  have d: "totalDemandVA (calculateNECOptionalMethod ls svc sqFt) =
     min (generalLoadVA ls sqFt + 3000 + 1500) 10000
     + (4 / 10) * max 0 (generalLoadVA ls sqFt + 3000 + 1500 - 10000)
     + fixedLoadVA ls + cookingDemand ls + dryerDemand ls + hvacDemand ls
     + otherLargeVA ls + evVA ls"
    by (simp only: nec_total gt demandGeneral_min_max)
  have e: "generalAndSmallAppliance (breakdown (calculateNECOptionalMethod ls svc sqFt)) =
     js_round (min (generalLoadVA ls sqFt + 3000 + 1500) 10000
               + (4 / 10) * max 0 (generalLoadVA ls sqFt + 3000 + 1500 - 10000))"
    by (simp only: nec_general_breakdown gt demandGeneral_min_max)
  have f: "totalDemandVA (calculateNECOptionalMethod [lighting_5500] svc None) = 10000"
    by (simp add: nec_total gt lighting_totals c lighting_rest)
  have h: "totalDemandVA (calculateNECOptionalMethod [lighting_5501] svc None) = 100004 / 10"
    by (simp add: nec_total gt lighting_totals c lighting_rest)
  from a b c d e f h show ?thesis by blast
qed

theorem C8_general_demand_factor_witness:
  "(9000 :: rat) \<le> 10000 \<and> demandGeneral 9000 = 9000 \<and>
   totalDemandVA (calculateNECOptionalMethod [lighting_5500] service_240_200 None) = 10000 \<and>
   totalDemandVA (calculateNECOptionalMethod [lighting_5501] service_240_200 None) = 100004 / 10 \<and>
   generalAndSmallAppliance
     (breakdown (calculateNECOptionalMethod [lighting_5501] service_240_200 None)) = 10000"
proof -
  note t = C8_general_demand_factor [of 9000 "[lighting_5501]" service_240_200 None]
  have r: "js_round (50002 / 5) = 10000"
    by (simp add: js_round_def floor_eq_iff)
  from t have "generalAndSmallAppliance
     (breakdown (calculateNECOptionalMethod [lighting_5501] service_240_200 None)) = 10000"
    by (simp add: lighting_totals r)
  with t show ?thesis by simp
qed

subsection \<open>The scenario of one 1500 W load\<close>

text \<open>
  C9. A 240 V service with a 200 A main breaker, 2000 square feet, one load of 1500 W
  in no bucket: general lighting 6000 VA, \<open>generalTotal\<close> 10500, \<open>demandGeneral\<close> 10200,
  other large loads 1500, total demand 11700 VA, 48.8 A, ratio 24, status OK.
\<close>

theorem C9_scenario_1500W:
  assumes w: "assumedWatts (usage l) = 1500"
    and other: "inNoBucket l"
    and svc: "serviceVoltage svc = 240" "mainBreakerAmps svc = 200"
  shows "generalLoadVA [l] (Some 2000) = 6000 \<and>
         generalTotal [l] (Some 2000) = 10500 \<and>
         demandGeneral (generalTotal [l] (Some 2000)) = 10200 \<and>
         otherLargeVA [l] = 1500 \<and>
         totalDemandVA (calculateNECOptionalMethod [l] svc (Some 2000)) = 11700 \<and>
         serviceAmps (calculateNECOptionalMethod [l] svc (Some 2000)) = 488 / 10 \<and>
         ratio (calculateNECOptionalMethod [l] svc (Some 2000)) = 24 \<and>
         status (calculateNECOptionalMethod [l] svc (Some 2000)) = OK"
proof -
  have g: "generalLoadVA [l] (Some 2000) = 6000"
    by (simp add: generalLoadVA_def)
  have gt: "generalTotal [l] (Some 2000) = 10500"
    by (simp add: generalTotal_def g smallApplianceVA_def laundryVA_def)
  have dg: "demandGeneral (generalTotal [l] (Some 2000)) = 10200"
    by (simp add: gt demandGeneral_def)
  have ot: "otherLargeVA [l] = 1500"
    using w other by (simp add: otherLargeVA_def otherLargeLoads_def sumWatts_def inNoBucket_def)
  have rest: "fixedLoadVA [l] = 0" "cookingDemand [l] = 0" "dryerDemand [l] = 0"
             "hvacDemand [l] = 0" "evVA [l] = 0"
    using other
    by (simp_all add: fixedLoadVA_def cookingDemand_def dryerDemand_def hvacDemand_def evVA_def
        sumWatts_def inNoBucket_def)
  have tot: "totalDemandVA (calculateNECOptionalMethod [l] svc (Some 2000)) = 11700"
    by (simp add: nec_total dg ot rest)
  have amps: "serviceAmps (calculateNECOptionalMethod [l] svc (Some 2000)) = 488 / 10"
    by (simp add: calculateNECOptionalMethod_def Let_def dg ot rest svc js_round_def)
  have rat: "ratio (calculateNECOptionalMethod [l] svc (Some 2000)) = 24"
    by (simp add: calculateNECOptionalMethod_def Let_def dg ot rest svc js_round_def
        floor_eq_iff)
  have st: "status (calculateNECOptionalMethod [l] svc (Some 2000)) = OK"
    by (simp add: calculateNECOptionalMethod_def Let_def dg ot rest svc nec_status_def)
  from g gt dg ot tot amps rat st show ?thesis by simp
qed

lemma other_1500_inNoBucket: "inNoBucket other_1500"
  by (simp add: inNoBucket_def other_1500_def example_load_def isFixed_def fixedCategories_def
      js_includes_def sublist_Cons_right isCooking_def isDryer_def isCooling_def isHeating_def
      isLighting_def isEV_def)

theorem C9_scenario_1500W_witness:
  "assumedWatts (usage other_1500) = 1500 \<and> inNoBucket other_1500 \<and>
   serviceVoltage service_240_200 = 240 \<and> mainBreakerAmps service_240_200 = 200 \<and>
   totalDemandVA (calculateNECOptionalMethod [other_1500] service_240_200 (Some 2000)) = 11700 \<and>
   serviceAmps (calculateNECOptionalMethod [other_1500] service_240_200 (Some 2000)) = 488 / 10 \<and>
   ratio (calculateNECOptionalMethod [other_1500] service_240_200 (Some 2000)) = 24 \<and>
   status (calculateNECOptionalMethod [other_1500] service_240_200 (Some 2000)) = OK"
proof -
  have w: "assumedWatts (usage other_1500) = 1500"
    by (simp add: other_1500_def example_load_def)
  have v: "serviceVoltage service_240_200 = 240" and m: "mainBreakerAmps service_240_200 = 200"
    by (simp_all add: service_240_200_def)
  from C9_scenario_1500W [OF w other_1500_inNoBucket v m] w other_1500_inNoBucket v m
  show ?thesis by simp
qed

subsection \<open>Raising the watts of one load\<close>

lemma foldl_plus_sum_list:
  "foldl (\<lambda>s x. s + f x) a xs = (a::rat) + sum_list (map f xs)"
  by (induction xs arbitrary: a) simp_all

lemma sumWatts_sum_list: "sumWatts ls = sum_list (map (\<lambda>l. assumedWatts (usage l)) ls)"
  by (simp add: sumWatts_def foldl_plus_sum_list)

lemma sum_filter_update:
  fixes f :: "'a \<Rightarrow> rat"
  shows "i < length xs \<Longrightarrow> P y = P (xs ! i) \<Longrightarrow>
    sum_list (map f (filter P (xs[i := y]))) =
      sum_list (map f (filter P xs)) + (if P (xs ! i) then f y - f (xs ! i) else 0)"
proof (induction xs arbitrary: i)
  case Nil
  then show ?case by simp
next
  case (Cons x xs)
  then show ?case by (cases i) auto
qed

lemma length_filter_update:
  "i < length xs \<Longrightarrow> P y = P (xs ! i) \<Longrightarrow>
    length (filter P (xs[i := y])) = length (filter P xs)"
proof (induction xs arbitrary: i)
  case Nil
  then show ?case by simp
next
  case (Cons x xs)
  then show ?case by (cases i) auto
qed

lemma filter_single:
  assumes "length (filter P xs) = 1" and "i < length xs" and "P (xs ! i)"
  shows "filter P xs = [xs ! i]"
proof -
  from assms(1) obtain x where x: "filter P xs = [x]"
    by (cases "filter P xs") auto
  have "xs ! i \<in> set (filter P xs)" using assms(2,3) by simp
  with x show ?thesis by simp
qed

text \<open>The object test of step 8 is the test of the bucket predicates.\<close>

lemma otherLargeLoads_filter: "otherLargeLoads ls = filter inNoBucket ls"
  unfolding otherLargeLoads_def
  by (rule filter_cong) (auto simp: inNoBucket_def)

lemma category_setWatts [simp]: "category (setWatts l w) = category l"
  by (simp add: setWatts_def)

lemma watts_setWatts [simp]: "assumedWatts (usage (setWatts l w)) = w"
  by (simp add: setWatts_def)

lemma bucket_setWatts [simp]:
  "isFixed (setWatts l w) = isFixed l"
  "isCooking (setWatts l w) = isCooking l"
  "isDryer (setWatts l w) = isDryer l"
  "isCooling (setWatts l w) = isCooling l"
  "isHeating (setWatts l w) = isHeating l"
  "isLighting (setWatts l w) = isLighting l"
  "isEV (setWatts l w) = isEV l"
  "inNoBucket (setWatts l w) = inNoBucket l"
  by (simp_all add: isFixed_def isCooking_def isDryer_def isCooling_def isHeating_def
      isLighting_def isEV_def inNoBucket_def)

lemma sumWatts_increase:
  assumes "i < length ls" and "\<And>l w. P (setWatts l w) = P l"
  shows "sumWatts (filter P (increaseLoad ls i w)) =
           sumWatts (filter P ls) + (if P (ls ! i) then w - assumedWatts (usage (ls ! i)) else 0)"
  using assms
  by (simp add: sumWatts_sum_list increaseLoad_def sum_filter_update)

lemma length_increase:
  assumes "i < length ls" and "\<And>l w. P (setWatts l w) = P l"
  shows "length (filter P (increaseLoad ls i w)) = length (filter P ls)"
  using assms by (simp add: increaseLoad_def length_filter_update)

lemma sumWatts_mono:
  assumes "i < length ls" and "\<And>l w. P (setWatts l w) = P l"
    and "assumedWatts (usage (ls ! i)) \<le> w"
  shows "sumWatts (filter P ls) \<le> sumWatts (filter P (increaseLoad ls i w))"
  using assms by (simp add: sumWatts_increase)

lemma demandGeneral_mono:
  assumes "g \<le> g'"
  shows "demandGeneral g \<le> demandGeneral g'"
proof (cases "g' \<le> 10000")
  case True
  with assms have "g \<le> 10000" by simp
  with True assms show ?thesis by (simp only: demandGeneral_low)
next
  case False
  then have hi: "demandGeneral g' = 10000 + (g' - 10000) * (4 / 10)"
    by (simp only: demandGeneral_high not_le)
  show ?thesis
  proof (cases "g \<le> 10000")
    case True
    then have lo: "demandGeneral g = g" by (rule demandGeneral_low)
    have "0 \<le> (g' - 10000) * (4 / 10)"
      using False by (intro mult_nonneg_nonneg) simp_all
    with True show ?thesis unfolding hi lo by linarith
  next
    case g: False
    then have hi': "demandGeneral g = 10000 + (g - 10000) * (4 / 10)"
      by (simp only: demandGeneral_high not_le)
    have "(g - 10000) * (4 / 10) \<le> (g' - 10000) * (4 / 10)"
      using assms by (intro mult_right_mono) simp_all
    then show ?thesis unfolding hi hi' by linarith
  qed
qed

lemma fixedLoadVA_mono:
  assumes "i < length ls" and "assumedWatts (usage (ls ! i)) \<le> w"
  shows "fixedLoadVA ls \<le> fixedLoadVA (increaseLoad ls i w)"
proof -
  have "sumWatts (filter isFixed ls) \<le> sumWatts (filter isFixed (increaseLoad ls i w))"
    using assms by (intro sumWatts_mono) simp_all
  moreover have "length (filter isFixed (increaseLoad ls i w)) = length (filter isFixed ls)"
    using assms by (intro length_increase) simp_all
  ultimately show ?thesis by (simp add: fixedLoadVA_def Let_def)
qed

lemma dryerDemand_mono:
  assumes "i < length ls" and "assumedWatts (usage (ls ! i)) \<le> w"
  shows "dryerDemand ls \<le> dryerDemand (increaseLoad ls i w)"
proof -
  have "sumWatts (filter isDryer ls) \<le> sumWatts (filter isDryer (increaseLoad ls i w))"
    using assms by (intro sumWatts_mono) simp_all
  moreover have "length (filter isDryer (increaseLoad ls i w)) = length (filter isDryer ls)"
    using assms by (intro length_increase) simp_all
  ultimately show ?thesis by (auto simp: dryerDemand_def Let_def)
qed

lemma hvacDemand_mono:
  assumes "i < length ls" and "assumedWatts (usage (ls ! i)) \<le> w"
  shows "hvacDemand ls \<le> hvacDemand (increaseLoad ls i w)"
proof -
  have "sumWatts (filter isCooling ls) \<le> sumWatts (filter isCooling (increaseLoad ls i w))"
    using assms by (intro sumWatts_mono) simp_all
  moreover have
    "sumWatts (filter isHeating ls) \<le> sumWatts (filter isHeating (increaseLoad ls i w))"
    using assms by (intro sumWatts_mono) simp_all
  ultimately show ?thesis by (auto simp: hvacDemand_def Let_def)
qed

lemma otherLargeVA_mono:
  assumes "i < length ls" and "assumedWatts (usage (ls ! i)) \<le> w"
  shows "otherLargeVA ls \<le> otherLargeVA (increaseLoad ls i w)"
  unfolding otherLargeVA_def otherLargeLoads_filter
  using assms by (intro sumWatts_mono) simp_all

lemma evVA_mono:
  assumes "i < length ls" and "assumedWatts (usage (ls ! i)) \<le> w"
  shows "evVA ls \<le> evVA (increaseLoad ls i w)"
  unfolding evVA_def
  using assms by (intro sumWatts_mono) simp_all

lemma cookingDemand_mono:
  assumes i: "i < length ls" and w: "assumedWatts (usage (ls ! i)) \<le> w"
    and nc: "\<not> cookingCliff ls i w"
  shows "cookingDemand ls \<le> cookingDemand (increaseLoad ls i w)"
proof -
  let ?T = "sumWatts (filter isCooking ls)"
  let ?T' = "sumWatts (filter isCooking (increaseLoad ls i w))"
  have len: "length (filter isCooking (increaseLoad ls i w)) = length (filter isCooking ls)"
    using i by (intro length_increase) simp_all
  have T': "?T' = ?T + (if isCooking (ls ! i) then w - assumedWatts (usage (ls ! i)) else 0)"
    using i by (intro sumWatts_increase) simp_all
  show ?thesis
  proof (cases "length (filter isCooking ls) = 1 \<and> isCooking (ls ! i)")
    case True
    then have "filter isCooking ls = [ls ! i]"
      using i by (intro filter_single) simp_all
    then have T: "?T = assumedWatts (usage (ls ! i))"
      by (simp add: sumWatts_sum_list)
    with T' True have T'w: "?T' = w" by simp
    from nc True
    have "\<not> (assumedWatts (usage (ls ! i)) \<le> 12000 \<and> 12000 < w \<and> w * (65 / 100) < 8000)"
      by (simp add: cookingCliff_def)
    with w True show ?thesis
      unfolding cookingDemand_def Let_def len T'w T
      by auto
  next
    case False
    then consider "length (filter isCooking ls) \<noteq> 1" | "\<not> isCooking (ls ! i)" by blast
    then show ?thesis
    proof cases
      case 1
      with w T' show ?thesis
        unfolding cookingDemand_def Let_def len by auto
    next
      case 2
      with T' have "?T' = ?T" by simp
      then show ?thesis
        unfolding cookingDemand_def Let_def len by simp
    qed
  qed
qed

lemma generalLoadVA_mono:
  assumes i: "i < length ls" and w: "assumedWatts (usage (ls ! i)) \<le> w"
    and nc: "\<not> lightingCliff ls sqFt i w"
  shows "generalLoadVA ls sqFt \<le> generalLoadVA (increaseLoad ls i w) sqFt"
proof -
  let ?S = "sumWatts (filter isLighting ls)"
  let ?S' = "sumWatts (filter isLighting (increaseLoad ls i w))"
  have S': "?S' = ?S + (if isLighting (ls ! i) then w - assumedWatts (usage (ls ! i)) else 0)"
    using i by (intro sumWatts_increase) simp_all
  show ?thesis
  proof (cases "(case sqFt of None \<Rightarrow> 0 | Some v \<Rightarrow> v) > 0")
    case True
    then show ?thesis by (simp add: generalLoadVA_def Let_def)
  next
    case False
    then have sq: "(case sqFt of None \<Rightarrow> True | Some s \<Rightarrow> s \<le> 0)"
      by (cases sqFt) auto
    have "(if ?S = 0 then 4500 else ?S) \<le> (if ?S' = 0 then 4500 else ?S')"
      using w nc sq S' by (auto simp: lightingCliff_def)
    with False show ?thesis by (simp add: generalLoadVA_def Let_def)
  qed
qed

lemma range_12000_facts:
  "isCooking range_12000" "\<not> isLighting range_12000" "\<not> isFixed range_12000"
  "\<not> isDryer range_12000" "\<not> isCooling range_12000" "\<not> isHeating range_12000"
  "\<not> isEV range_12000" "assumedWatts (usage range_12000) = 12000"
  by (simp_all add: range_12000_def example_load_def isCooking_def isLighting_def isFixed_def
      fixedCategories_def js_includes_def sublist_Cons_right isDryer_def isCooling_def
      isHeating_def isEV_def)

lemma range_total:
  "totalDemandVA (calculateNECOptionalMethod [setWatts range_12000 w] service_240_200 None) =
     9000 + (if w \<le> 12000 then 8000 else w * (65 / 100))"
  by (simp add: nec_total generalTotal_def generalLoadVA_def smallApplianceVA_def laundryVA_def
      demandGeneral_def fixedLoadVA_def cookingDemand_def dryerDemand_def hvacDemand_def
      otherLargeVA_def otherLargeLoads_def evVA_def sumWatts_def range_12000_facts)

lemma range_12000_setWatts: "setWatts range_12000 12000 = range_12000"
  by (simp add: setWatts_def range_12000_def example_load_def)

text \<open>
  C2, as stated: raising the watts of one load never lowers \<open>totalDemandVA\<close>. It fails
  at the cooking cliff: one range of 12000 W has the flat demand of 8000 VA, and at
  12001 W its demand is 65 percent of 12001, which is 7800.65 VA.
\<close>

theorem C2_counterexample:
  "assumedWatts (usage ([range_12000] ! 0)) \<le> 12001 \<and>
   totalDemandVA (calculateNECOptionalMethod (increaseLoad [range_12000] 0 12001)
                    service_240_200 None)
   < totalDemandVA (calculateNECOptionalMethod [range_12000] service_240_200 None)"
proof -
  have "totalDemandVA (calculateNECOptionalMethod [setWatts range_12000 12001]
                         service_240_200 None) = 9000 + 12001 * (65 / 100)"
    by (simp add: range_total)
  moreover have "totalDemandVA (calculateNECOptionalMethod [setWatts range_12000 12000]
                         service_240_200 None) = 17000"
    by (simp add: range_total)
  ultimately show ?thesis
    by (simp add: increaseLoad_def range_12000_setWatts range_12000_facts)
qed

text \<open>
  C2, amended: raising the watts of one load never lowers \<open>totalDemandVA\<close>, except at
  the two cliffs of the pipeline, \<open>cookingCliff\<close> and \<open>lightingCliff\<close>.
\<close>

theorem C2_monotone_off_cliffs:
  assumes i: "i < length ls" and w: "assumedWatts (usage (ls ! i)) \<le> w"
    and nc: "\<not> cookingCliff ls i w" and nl: "\<not> lightingCliff ls sqFt i w"
  shows "totalDemandVA (calculateNECOptionalMethod ls svc sqFt) \<le>
         totalDemandVA (calculateNECOptionalMethod (increaseLoad ls i w) svc sqFt)"
proof -
  have "demandGeneral (generalTotal ls sqFt)
        \<le> demandGeneral (generalTotal (increaseLoad ls i w) sqFt)"
    using generalLoadVA_mono [OF i w nl]
    by (intro demandGeneral_mono) (simp add: generalTotal_def)
  moreover note fixedLoadVA_mono [OF i w] cookingDemand_mono [OF i w nc] dryerDemand_mono [OF i w]
    hvacDemand_mono [OF i w] otherLargeVA_mono [OF i w] evVA_mono [OF i w]
  ultimately show ?thesis
    unfolding nec_total by linarith
qed

theorem C2_monotone_off_cliffs_witness:
  "0 < length [range_12000] \<and> assumedWatts (usage ([range_12000] ! 0)) \<le> 13000 \<and>
   \<not> cookingCliff [range_12000] 0 13000 \<and> \<not> lightingCliff [range_12000] None 0 13000 \<and>
   totalDemandVA (calculateNECOptionalMethod [range_12000] service_240_200 None) \<le>
   totalDemandVA (calculateNECOptionalMethod (increaseLoad [range_12000] 0 13000)
                    service_240_200 None)"
proof -
  have i: "0 < length [range_12000]" by simp
  have w: "assumedWatts (usage ([range_12000] ! 0)) \<le> 13000"
    by (simp add: range_12000_facts)
  have nc: "\<not> cookingCliff [range_12000] 0 13000"
    by (simp add: cookingCliff_def)
  have nl: "\<not> lightingCliff [range_12000] None 0 13000"
    by (simp add: lightingCliff_def range_12000_facts)
  from C2_monotone_off_cliffs [OF i w nc nl, of service_240_200] i w nc nl
  show ?thesis by simp
qed

section \<open>EV feasibility\<close>

lemma recommend_first_match:
  "first_match (spec_tiers st space canFree) = Some (recommend st space canFree)"
  by (simp add: spec_tiers_def recommend_def)

lemma recommend_upgrade:
  "(recommend st space canFree = ServiceUpgradeRecommended) = (st = Undersized)"
  by (simp add: recommend_def)

lemma ev_fields:
  assumes "chargerOption (ev proj) = Some ch"
  shows "\<exists>r. calculateEVFeasibility proj = Some r \<and>
    necWithEV r =
      calculateNECOptionalMethod
        (loads proj @
         replicate (or_default (chargerCount (ev proj)) 1)
           (evSyntheticLoad
              ((if isCustom ch then or_default (customContinuousAmps (ev proj)) 0
                else charger_continuousAmps ch) * serviceVoltage (service proj))))
        (service proj) None \<and>
    hasSpace r =
      (2 * int (or_default (chargerCount (ev proj)) 1)
       \<le> max 0 (totalSlots (panel proj)
                 - (if 0 < length (loads proj) then calculateModeledSlots (loads proj)
                    else usedSlots (panel proj)))) \<and>
    canUseTandems r = canFreeSlotsWithTandems (calculatePanelSlots (panel proj)) \<and>
    recommendation r = recommend (status (necWithEV r)) (hasSpace r) (canUseTandems r)"
  using assms by (simp add: calculateEVFeasibility_def Let_def)

lemma undersized_nec:
  "status (calculateNECOptionalMethod ([other_10000] @ replicate 1 (evSyntheticLoad (48 * 240)))
             service_240_100 None) = Undersized"
  by (simp add: calculateNECOptionalMethod_def Let_def nec_status_def generalTotal_def
      generalLoadVA_def smallApplianceVA_def laundryVA_def demandGeneral_def fixedLoadVA_def
      cookingDemand_def dryerDemand_def hvacDemand_def otherLargeVA_def otherLargeLoads_def
      evVA_def sumWatts_def other_10000_def example_load_def evSyntheticLoad_def
      service_240_100_def isFixed_def fixedCategories_def js_includes_def sublist_Cons_right
      isCooking_def isDryer_def isCooling_def isHeating_def isLighting_def isEV_def)

text \<open>
  C5. With a charger selected, \<^verbatim>\<open>calculateEVFeasibility\<close> returns a result. Its with-EV
  figures are the NEC run on the project's loads followed by one synthetic charger load
  per charger; its space flag says that twice the charger count fits into the slots left
  by the modelled loads (by the declared used slots when there are no loads); its tandem
  flag is the panel's. The recommendation is the first matching tier of the
  specification's list at these three values, and it is "Service upgrade recommended"
  exactly when the with-EV status is Undersized, whatever the space and tandem flags.
\<close>

theorem C5_first_matching_tier:
  assumes "chargerOption (ev proj) = Some ch"
  shows "\<exists>r. calculateEVFeasibility proj = Some r \<and>
    necWithEV r =
      calculateNECOptionalMethod
        (loads proj @
         replicate (or_default (chargerCount (ev proj)) 1)
           (evSyntheticLoad
              ((if isCustom ch then or_default (customContinuousAmps (ev proj)) 0
                else charger_continuousAmps ch) * serviceVoltage (service proj))))
        (service proj) None \<and>
    hasSpace r =
      (2 * int (or_default (chargerCount (ev proj)) 1)
       \<le> max 0 (totalSlots (panel proj)
                 - (if 0 < length (loads proj) then calculateModeledSlots (loads proj)
                    else usedSlots (panel proj)))) \<and>
    canUseTandems r = canFreeSlotsWithTandems (calculatePanelSlots (panel proj)) \<and>
    first_match (spec_tiers (status (necWithEV r)) (hasSpace r) (canUseTandems r))
      = Some (recommendation r) \<and>
    (recommendation r = ServiceUpgradeRecommended) = (status (necWithEV r) = Undersized)"
proof -
  from ev_fields [OF assms] obtain r where r: "calculateEVFeasibility proj = Some r"
    and n: "necWithEV r =
      calculateNECOptionalMethod
        (loads proj @
         replicate (or_default (chargerCount (ev proj)) 1)
           (evSyntheticLoad
              ((if isCustom ch then or_default (customContinuousAmps (ev proj)) 0
                else charger_continuousAmps ch) * serviceVoltage (service proj))))
        (service proj) None"
    and h: "hasSpace r =
      (2 * int (or_default (chargerCount (ev proj)) 1)
       \<le> max 0 (totalSlots (panel proj)
                 - (if 0 < length (loads proj) then calculateModeledSlots (loads proj)
                    else usedSlots (panel proj))))"
    and c: "canUseTandems r = canFreeSlotsWithTandems (calculatePanelSlots (panel proj))"
    and rec: "recommendation r =
                recommend (status (necWithEV r)) (hasSpace r) (canUseTandems r)"
    by blast
  have fm: "first_match (spec_tiers (status (necWithEV r)) (hasSpace r) (canUseTandems r))
          = Some (recommendation r)"
    by (simp only: rec recommend_first_match)
  have up: "(recommendation r = ServiceUpgradeRecommended)
                   = (status (necWithEV r) = Undersized)"
    by (simp only: rec recommend_upgrade)
  from r n h c fm up show ?thesis by blast
qed

theorem C5_first_matching_tier_witness:
  "chargerOption (ev undersized_project) =
     Some \<lparr> isCustom = False, charger_continuousAmps = 48, recommendedBreakerAmps = 60 \<rparr> \<and>
   (\<exists>r. calculateEVFeasibility undersized_project = Some r \<and>
        status (necWithEV r) = Undersized \<and> hasSpace r = False \<and> canUseTandems r = False \<and>
        first_match (spec_tiers (status (necWithEV r)) (hasSpace r) (canUseTandems r))
          = Some ServiceUpgradeRecommended \<and>
        recommendation r = ServiceUpgradeRecommended)"
proof -
  have h: "chargerOption (ev undersized_project) =
             Some \<lparr> isCustom = False, charger_continuousAmps = 48, recommendedBreakerAmps = 60 \<rparr>"
    by (simp add: undersized_project_def charger_48_def)
  from C5_first_matching_tier [OF h] obtain r where r: "calculateEVFeasibility undersized_project = Some r"
    and n: "necWithEV r =
      calculateNECOptionalMethod
        (loads undersized_project @
         replicate (or_default (chargerCount (ev undersized_project)) 1)
           (evSyntheticLoad
              ((if isCustom \<lparr> isCustom = False, charger_continuousAmps = 48,
                               recommendedBreakerAmps = 60 \<rparr>
                then or_default (customContinuousAmps (ev undersized_project)) 0
                else charger_continuousAmps \<lparr> isCustom = False, charger_continuousAmps = 48,
                               recommendedBreakerAmps = 60 \<rparr>)
               * serviceVoltage (service undersized_project))))
        (service undersized_project) None"
    and s: "hasSpace r =
      (2 * int (or_default (chargerCount (ev undersized_project)) 1)
       \<le> max 0 (totalSlots (panel undersized_project)
                 - (if 0 < length (loads undersized_project)
                    then calculateModeledSlots (loads undersized_project)
                    else usedSlots (panel undersized_project))))"
    and c: "canUseTandems r =
              canFreeSlotsWithTandems (calculatePanelSlots (panel undersized_project))"
    and fm: "first_match (spec_tiers (status (necWithEV r)) (hasSpace r) (canUseTandems r))
      = Some (recommendation r)"
    and up: "(recommendation r = ServiceUpgradeRecommended) = (status (necWithEV r) = Undersized)"
    by blast
  have n': "necWithEV r =
      calculateNECOptionalMethod ([other_10000] @ replicate 1 (evSyntheticLoad (48 * 240)))
        service_240_100 None"
    unfolding n
    by (simp add: undersized_project_def charger_48_def or_default_def service_240_100_def)
  have st: "status (necWithEV r) = Undersized"
    by (simp only: n' undersized_nec)
  have sp: "hasSpace r = False"
    unfolding s
    by (simp add: undersized_project_def charger_48_def or_default_def panel_1_slot_def
        calculateModeledSlots_def load_slots_def other_10000_def example_load_def)
  have ct: "canUseTandems r = False"
    unfolding c
    by (simp add: undersized_project_def panel_1_slot_def calculatePanelSlots_def Let_def)
  from up st have rc: "recommendation r = ServiceUpgradeRecommended" by simp
  from r st sp ct fm rc h show ?thesis by auto
qed

text \<open>
  C10. Without a selected charger \<^verbatim>\<open>calculateEVFeasibility\<close> returns \<^verbatim>\<open>null\<close>, whatever
  the rest of the project holds.
\<close>

theorem C10_no_charger_null:
  "chargerOption (ev proj) = None \<Longrightarrow> calculateEVFeasibility proj = None"
  by (simp add: calculateEVFeasibility_def)

theorem C10_no_charger_null_witness:
  "chargerOption (ev (example_project no_charger [other_1500])) = None \<and>
   calculateEVFeasibility (example_project no_charger [other_1500]) = None"
proof -
  have h: "chargerOption (ev (example_project no_charger [other_1500])) = None"
    by (simp add: example_project_def no_charger_def)
  from C10_no_charger_null [OF h] h show ?thesis by simp
qed

section \<open>Battery sizing\<close>

subsection \<open>The fields of the result\<close>

lemma sizing_enphase5P:
  "enphase5P (calculateBatterySizing specs ls d opts) =
     sizeEnphase5P specs (totalEnergyNeededKWh ls d opts) (peakPowerKW ls opts)
       (hasUnknownMotorLRA ls opts)"
  by (simp add: calculateBatterySizing_def Let_def)

lemma sizing_enphase10C:
  "enphase10C (calculateBatterySizing specs ls d opts) =
     sizeEnphase10C specs (totalEnergyNeededKWh ls d opts) (peakPowerKW ls opts)
       (largestLRA ls opts) (hasUnknownMotorLRA ls opts)"
  by (simp add: calculateBatterySizing_def Let_def)

lemma sizing_enphase_mixed:
  "enphase_mixed (calculateBatterySizing specs ls d opts) =
     sizeEnphaseMixed specs (totalEnergyNeededKWh ls d opts) (peakPowerKW ls opts)
       (largestLRA ls opts)"
  by (simp add: calculateBatterySizing_def Let_def)

lemma sizing_teslaPW3Only:
  "teslaPW3Only (calculateBatterySizing specs ls d opts) =
     sizeTeslaPW3Only specs (totalEnergyNeededKWh ls d opts) (peakPowerKW ls opts)
       (largestLRA ls opts) (hasUnknownMotorLRA ls opts)"
  by (simp add: calculateBatterySizing_def Let_def)

lemma sizing_teslaPW3WithExpansions:
  "teslaPW3WithExpansions (calculateBatterySizing specs ls d opts) =
     sizeTeslaPW3WithExpansions specs (totalEnergyNeededKWh ls d opts) (peakPowerKW ls opts)
       (largestLRA ls opts)"
  by (simp add: calculateBatterySizing_def Let_def)

lemmas sizing_fields = sizing_enphase5P sizing_enphase10C sizing_enphase_mixed
  sizing_teslaPW3Only sizing_teslaPW3WithExpansions

lemma required_count: "(if fst (checkFeasibility n m lbl) then n else min n m) = n"
  by (simp add: checkFeasibility_def)

lemma checkFeasibility_flag: "fst (checkFeasibility n m lbl) = (m < n)"
  by (simp add: checkFeasibility_def)

lemma checkFeasibility_reason:
  "snd (checkFeasibility n m lbl) =
     (if m < n then Some (''Exceeds maximum configuration ('' @ show_int m @ '' '' @ lbl
                          @ '' max)'')
      else None)"
  by (simp add: checkFeasibility_def)

lemma drivers_5P:
  "forEnergy (sizeEnphase5P specs e p u) = \<lceil>e / usableKWh (spec_enphase5P specs)\<rceil>"
  "forPower (sizeEnphase5P specs e p u) = \<lceil>p / continuousKW (spec_enphase5P specs)\<rceil>"
  "forMotorStart (sizeEnphase5P specs e p u) = None"
  by (simp_all add: sizeEnphase5P_def Let_def)

lemma drivers_10C:
  "forEnergy (sizeEnphase10C specs e p l u) = \<lceil>e / usableKWh (spec_enphase10C specs)\<rceil>"
  "forPower (sizeEnphase10C specs e p l u) = \<lceil>p / continuousKW (spec_enphase10C specs)\<rceil>"
  "forMotorStart (sizeEnphase10C specs e p l u) = Some (forMotor l (spec_enphase10C specs))"
  by (simp_all add: sizeEnphase10C_def Let_def)

lemma drivers_PW3:
  "forEnergy (sizeTeslaPW3Only specs e p l u) = \<lceil>e / usableKWh (spec_teslaPW3 specs)\<rceil>"
  "forPower (sizeTeslaPW3Only specs e p l u) = \<lceil>p / continuousKW (spec_teslaPW3 specs)\<rceil>"
  "forMotorStart (sizeTeslaPW3Only specs e p l u) = Some (forMotor l (spec_teslaPW3 specs))"
  by (simp_all add: sizeTeslaPW3Only_def Let_def)

lemma forMotor_nonneg: "0 \<le> l \<Longrightarrow> 0 < motorStartLRA spec \<Longrightarrow> forMotor l spec = \<lceil>l / motorStartLRA spec\<rceil>"
  by (cases "l = 0") (simp_all add: forMotor_def)

subsection \<open>The unit count of the single-product configurations\<close>

text \<open>The two Enphase configurations count as the claim says, and flag what they count.\<close>

lemma count_5P:
  "count (sizeEnphase5P specs e p u) =
     max (max (forEnergy (sizeEnphase5P specs e p u)) (forPower (sizeEnphase5P specs e p u))) 1"
  by (simp only: sizeEnphase5P_def Let_def single_result.select_convs required_count)

lemma count_10C:
  "count (sizeEnphase10C specs e p l u) =
     max (max (max (forEnergy (sizeEnphase10C specs e p l u))
                   (forPower (sizeEnphase10C specs e p l u)))
              (forMotor l (spec_enphase10C specs))) 1"
  by (simp only: sizeEnphase10C_def Let_def single_result.select_convs required_count)

lemma feasibility_5P:
  "notFeasible (sizeEnphase5P specs e p u) =
     (maxUnits (spec_enphase5P specs) < count (sizeEnphase5P specs e p u))"
proof -
  have "notFeasible (sizeEnphase5P specs e p u) =
          (maxUnits (spec_enphase5P specs) < max (max \<lceil>e / usableKWh (spec_enphase5P specs)\<rceil> \<lceil>p / continuousKW (spec_enphase5P specs)\<rceil>) 1)"
    by (simp only: sizeEnphase5P_def Let_def single_result.select_convs config_result.select_convs
        checkFeasibility_flag)
  then show ?thesis by (simp only: count_5P drivers_5P)
qed

lemma feasibility_10C:
  "notFeasible (sizeEnphase10C specs e p l u) =
     (maxUnits (spec_enphase10C specs) < count (sizeEnphase10C specs e p l u))"
proof -
  have "notFeasible (sizeEnphase10C specs e p l u) =
          (maxUnits (spec_enphase10C specs) < max (max (max \<lceil>e / usableKWh (spec_enphase10C specs)\<rceil> \<lceil>p / continuousKW (spec_enphase10C specs)\<rceil>) (forMotor l (spec_enphase10C specs))) 1)"
    by (simp only: sizeEnphase10C_def Let_def single_result.select_convs config_result.select_convs
        checkFeasibility_flag)
  then show ?thesis by (simp only: count_10C drivers_10C)
qed

lemma count_5P_ge_1: "1 \<le> count (sizeEnphase5P specs e p u)"
  by (simp only: count_5P max.cobounded2)

lemma count_10C_ge_1: "1 \<le> count (sizeEnphase10C specs e p l u)"
  by (simp only: count_10C max.cobounded2)

lemma limitedBy_5P:
  "limitedBy (sizeEnphase5P specs e p u) =
     (if forPower (sizeEnphase5P specs e p u) \<le> forEnergy (sizeEnphase5P specs e p u)
      then Energy else Power)"
  by (simp only: sizeEnphase5P_def Let_def single_result.select_convs)

lemma limitedBy_10C:
  "limitedBy (sizeEnphase10C specs e p l u) =
     (if forPower (sizeEnphase10C specs e p l u) \<le> forEnergy (sizeEnphase10C specs e p l u) \<and>
         forMotor l (spec_enphase10C specs) \<le> forEnergy (sizeEnphase10C specs e p l u)
      then Energy
      else if forMotor l (spec_enphase10C specs) \<le> forPower (sizeEnphase10C specs e p l u)
      then Power else MotorStart)"
  by (simp only: sizeEnphase10C_def Let_def single_result.select_convs)

lemma limitedBy_PW3:
  "limitedBy (sizeTeslaPW3Only specs e p l u) =
     (if forPower (sizeTeslaPW3Only specs e p l u) \<le> forEnergy (sizeTeslaPW3Only specs e p l u) \<and>
         forMotor l (spec_teslaPW3 specs) \<le> forEnergy (sizeTeslaPW3Only specs e p l u)
      then Energy
      else if forMotor l (spec_teslaPW3 specs) \<le> forPower (sizeTeslaPW3Only specs e p l u)
      then Power else MotorStart)"
  by (simp only: sizeTeslaPW3Only_def Let_def single_result.select_convs)

text \<open>
  The Tesla configuration counts the leaders after capping them: a power or a
  motor-start requirement above \<open>maxLeaders\<close> is neither counted nor flagged, for any
  table (\<open>teslaPW3Only_power_over_cap\<close>).
\<close>

lemma count_PW3:
  "count (sizeTeslaPW3Only specs e p l u) =
     max (forEnergy (sizeTeslaPW3Only specs e p l u))
         (min (max (max (forPower (sizeTeslaPW3Only specs e p l u))
                        (forMotor l (spec_teslaPW3 specs))) 1)
              (maxLeaders (spec_teslaPW3 specs)))"
  by (simp only: sizeTeslaPW3Only_def Let_def single_result.select_convs required_count
      pw3LeadersCapped_def pw3Leaders_def)

lemma feasibility_PW3:
  "notFeasible (sizeTeslaPW3Only specs e p l u) =
     (maxLeaders (spec_teslaPW3 specs) < count (sizeTeslaPW3Only specs e p l u))"
proof -
  have "notFeasible (sizeTeslaPW3Only specs e p l u) =
          (maxLeaders (spec_teslaPW3 specs) < max \<lceil>e / usableKWh (spec_teslaPW3 specs)\<rceil> (min (max (max \<lceil>p / continuousKW (spec_teslaPW3 specs)\<rceil> (forMotor l (spec_teslaPW3 specs))) 1) (maxLeaders (spec_teslaPW3 specs))))"
    by (simp only: sizeTeslaPW3Only_def Let_def single_result.select_convs config_result.select_convs
        checkFeasibility_flag pw3LeadersCapped_def pw3Leaders_def)
  then show ?thesis by (simp only: count_PW3 drivers_PW3)
qed

lemma count_PW3_ge_1:
  "1 \<le> maxLeaders (spec_teslaPW3 specs) \<Longrightarrow> 1 \<le> count (sizeTeslaPW3Only specs e p l u)"
  unfolding count_PW3 by simp

lemma teslaPW3Only_power_over_cap:
  assumes "maxLeaders (spec_teslaPW3 specs) < \<lceil>p / continuousKW (spec_teslaPW3 specs)\<rceil>"
    and "\<lceil>e / usableKWh (spec_teslaPW3 specs)\<rceil> \<le> maxLeaders (spec_teslaPW3 specs)"
  shows "\<not> notFeasible (sizeTeslaPW3Only specs e p l u) \<and>
         count (sizeTeslaPW3Only specs e p l u) = maxLeaders (spec_teslaPW3 specs) \<and>
         maxLeaders (spec_teslaPW3 specs) < forPower (sizeTeslaPW3Only specs e p l u)"
proof -
  have c: "count (sizeTeslaPW3Only specs e p l u) = maxLeaders (spec_teslaPW3 specs)"
    using assms unfolding count_PW3 drivers_PW3 by linarith
  then show ?thesis
    using assms(1) by (simp only: feasibility_PW3 drivers_PW3) simp
qed

lemma inputs_50kW:
  "totalEnergyNeededKWh loads_50kW 1 default_options = 25"
  "peakPowerKW loads_50kW default_options = 50"
  "largestLRA loads_50kW default_options = 0"
  "hasUnknownMotorLRA loads_50kW default_options = False"
  by (simp_all add: totalEnergyNeededKWh_def peakPowerKW_def largestLRA_def
      hasUnknownMotorLRA_def filteredLoads_def calculatePracticalLoad_def sumWatts_def
      loads_50kW_def example_load_def default_options_def Let_def)

lemma inputs_58kW:
  "totalEnergyNeededKWh loads_58kW 1 default_options = 29"
  "peakPowerKW loads_58kW default_options = 58"
  "largestLRA loads_58kW default_options = 0"
  "hasUnknownMotorLRA loads_58kW default_options = False"
  by (simp_all add: totalEnergyNeededKWh_def peakPowerKW_def largestLRA_def
      hasUnknownMotorLRA_def filteredLoads_def calculatePracticalLoad_def sumWatts_def
      loads_58kW_def example_load_def default_options_def Let_def)

lemma ceilings:
  "\<lceil>100 / 23 :: rat\<rceil> = 5" "\<lceil>50 / 27 :: rat\<rceil> = 2"
  "\<lceil>116 / 23 :: rat\<rceil> = 6" "\<lceil>58 / 27 :: rat\<rceil> = 3"
  by (simp_all add: ceiling_eq_iff)

lemma teslaPW3Only_50kW:
  "sizeTeslaPW3Only example_specs 25 50 0 False =
     \<lparr> totalKWh = 54, totalKW = 46, notFeasible = False, reason = None,
       count = 4, forEnergy = 2, forPower = 5, forMotorStart = Some 0,
       limitedBy = Power, motorStartWarning = None \<rparr>"
  by (simp add: sizeTeslaPW3Only_def example_specs_def pw3LeadersCapped_def pw3Leaders_def
      forMotor_def checkFeasibility_def Let_def ceilings)

lemma teslaPW3Only_58kW:
  "sizeTeslaPW3Only example_specs 29 58 0 False =
     \<lparr> totalKWh = 54, totalKW = 46, notFeasible = False, reason = None,
       count = 4, forEnergy = 3, forPower = 6, forMotorStart = Some 0,
       limitedBy = Power, motorStartWarning = None \<rparr>"
  by (simp add: sizeTeslaPW3Only_def example_specs_def pw3LeadersCapped_def pw3Leaders_def
      forMotor_def checkFeasibility_def Let_def ceilings)

text \<open>
  C3. The claim: each single-product configuration counts
  \<open>max (forEnergy, forPower, forMotorStart, 1)\<close> units. The Enphase configurations do
  (\<open>count_5P\<close>, \<open>count_10C\<close>). The Tesla PW3-only configuration does not: for loads that
  run 50 kW and need 25 kWh, the three drivers are 2, 5 and 0, the claimed count is 5 and
  the returned count is 4, the leader limit.
\<close>

theorem C3_teslaPW3Only_count_capped:
  "forEnergy (teslaPW3Only (calculateBatterySizing example_specs loads_50kW 1 default_options)) = 2 \<and>
   forPower (teslaPW3Only (calculateBatterySizing example_specs loads_50kW 1 default_options)) = 5 \<and>
   forMotorStart (teslaPW3Only (calculateBatterySizing example_specs loads_50kW 1 default_options))
     = Some 0 \<and>
   count (teslaPW3Only (calculateBatterySizing example_specs loads_50kW 1 default_options)) = 4 \<and>
   limitedBy (teslaPW3Only (calculateBatterySizing example_specs loads_50kW 1 default_options))
     = Power"
  by (simp add: sizing_teslaPW3Only inputs_50kW teslaPW3Only_50kW)

text \<open>
  C4. The claim: a requirement above the product's maximum is flagged \<open>notFeasible\<close>
  with a reason, in exactly those cases. In terms of the count each configuration
  computes, the flag is exact (\<open>feasibility_5P\<close>, \<open>feasibility_10C\<close>,
  \<open>feasibility_PW3\<close>). But the Tesla PW3-only count has the leaders capped already: for
  loads that run 58 kW, 6 leaders are required for power, 4 are allowed, and the result
  is 4 units, feasible, without a reason.
\<close>

theorem C4_teslaPW3Only_not_flagged:
  "forPower (teslaPW3Only (calculateBatterySizing example_specs loads_58kW 1 default_options)) = 6 \<and>
   maxLeaders (spec_teslaPW3 example_specs) = 4 \<and>
   count (teslaPW3Only (calculateBatterySizing example_specs loads_58kW 1 default_options)) = 4 \<and>
   notFeasible (teslaPW3Only (calculateBatterySizing example_specs loads_58kW 1 default_options))
     = False \<and>
   reason (teslaPW3Only (calculateBatterySizing example_specs loads_58kW 1 default_options)) = None"
  by (simp add: sizing_teslaPW3Only inputs_58kW teslaPW3Only_58kW) (simp add: example_specs_def)

subsection \<open>The solar offset\<close>

lemma filteredLoads_solar [simp]:
  "filteredLoads ls (opts\<lparr>solarOffsetPercent := s\<rparr>) = filteredLoads ls opts"
  by (simp add: filteredLoads_def)

lemma peakPowerKW_solar [simp]:
  "peakPowerKW ls (opts\<lparr>solarOffsetPercent := s\<rparr>) = peakPowerKW ls opts"
  by (simp add: peakPowerKW_def)

lemma largestLRA_solar [simp]:
  "largestLRA ls (opts\<lparr>solarOffsetPercent := s\<rparr>) = largestLRA ls opts"
  by (simp add: largestLRA_def)

lemma energy_formula:
  "totalEnergyNeededKWh ls d opts =
     max 0 (if 0 < solarOffsetPercent opts
            then totalDailyKWh (calculatePracticalLoad (filteredLoads ls opts) None) * d
                 * (1 - solarOffsetPercent opts / 100)
            else totalDailyKWh (calculatePracticalLoad (filteredLoads ls opts) None) * d)"
  by (simp only: totalEnergyNeededKWh_def Let_def)

lemma summary_energy:
  "summary_totalEnergyNeededKWh (summary (calculateBatterySizing specs ls d opts)) =
     of_int (js_round (totalEnergyNeededKWh ls d opts * 10)) / 10"
  by (simp add: calculateBatterySizing_def Let_def)

lemma energy_solar:
  "totalEnergyNeededKWh ls d (opts\<lparr>solarOffsetPercent := s\<rparr>) =
     max 0 (if 0 < s
            then totalDailyKWh (calculatePracticalLoad (filteredLoads ls opts) None) * d
                 * (1 - s / 100)
            else totalDailyKWh (calculatePracticalLoad (filteredLoads ls opts) None) * d)"
  by (simp add: energy_formula)

lemma inputs_1000W:
  "totalDailyKWh (calculatePracticalLoad (filteredLoads [other_1000_24h] default_options) None)
     = 24"
  "peakPowerKW [other_1000_24h] default_options = 1"
  by (simp_all add: peakPowerKW_def filteredLoads_def calculatePracticalLoad_def sumWatts_def
      other_1000_24h_def example_load_def default_options_def Let_def)

lemma ceilings_5P:
  "\<lceil>24 / 5 :: rat\<rceil> = 5" "\<lceil>12 / 5 :: rat\<rceil> = 3" "\<lceil>25 / 96 :: rat\<rceil> = 1"
  by (simp_all add: ceiling_eq_iff)

text \<open>
  C6. Two runs that differ in \<open>solarOffsetPercent\<close> only have the same \<open>forPower\<close> and
  \<open>forMotorStart\<close> in every configuration that reports them, the same peak power and
  the same largest locked-rotor current. The energy to store is the daily energy times
  the backup days, times \<open>1 - solarOffsetPercent / 100\<close> when the offset is positive,
  floored at 0: \<open>forEnergy\<close> of each single-product configuration is the ceiling of
  that energy over the product's usable energy, and the summary reports it rounded to
  one decimal. One load of 1000 W for 24 hours needs 5 Enphase 5P units for energy
  without offset and 3 at an offset of 50, and 1 unit for power in both runs.
\<close>

theorem C6_solar_offset_energy_only:
  "forPower (enphase5P (calculateBatterySizing specs ls d (opts\<lparr>solarOffsetPercent := s1\<rparr>)))
     = forPower (enphase5P (calculateBatterySizing specs ls d (opts\<lparr>solarOffsetPercent := s2\<rparr>))) \<and>
   forPower (enphase10C (calculateBatterySizing specs ls d (opts\<lparr>solarOffsetPercent := s1\<rparr>)))
     = forPower (enphase10C (calculateBatterySizing specs ls d (opts\<lparr>solarOffsetPercent := s2\<rparr>))) \<and>
   forMotorStart (enphase10C (calculateBatterySizing specs ls d (opts\<lparr>solarOffsetPercent := s1\<rparr>)))
     = forMotorStart (enphase10C (calculateBatterySizing specs ls d (opts\<lparr>solarOffsetPercent := s2\<rparr>))) \<and>
   forPower (teslaPW3Only (calculateBatterySizing specs ls d (opts\<lparr>solarOffsetPercent := s1\<rparr>)))
     = forPower (teslaPW3Only (calculateBatterySizing specs ls d (opts\<lparr>solarOffsetPercent := s2\<rparr>))) \<and>
   forMotorStart (teslaPW3Only (calculateBatterySizing specs ls d (opts\<lparr>solarOffsetPercent := s1\<rparr>)))
     = forMotorStart (teslaPW3Only (calculateBatterySizing specs ls d (opts\<lparr>solarOffsetPercent := s2\<rparr>))) \<and>
   peakPowerKW ls (opts\<lparr>solarOffsetPercent := s1\<rparr>) = peakPowerKW ls (opts\<lparr>solarOffsetPercent := s2\<rparr>) \<and>
   largestLRA ls (opts\<lparr>solarOffsetPercent := s1\<rparr>) = largestLRA ls (opts\<lparr>solarOffsetPercent := s2\<rparr>) \<and>
   totalEnergyNeededKWh ls d (opts\<lparr>solarOffsetPercent := s1\<rparr>) =
     max 0 (if 0 < s1
            then totalDailyKWh (calculatePracticalLoad (filteredLoads ls opts) None) * d
                 * (1 - s1 / 100)
            else totalDailyKWh (calculatePracticalLoad (filteredLoads ls opts) None) * d) \<and>
   forEnergy (enphase5P (calculateBatterySizing specs ls d (opts\<lparr>solarOffsetPercent := s1\<rparr>))) =
     \<lceil>max 0 (if 0 < s1
              then totalDailyKWh (calculatePracticalLoad (filteredLoads ls opts) None) * d
                   * (1 - s1 / 100)
              else totalDailyKWh (calculatePracticalLoad (filteredLoads ls opts) None) * d)
      / usableKWh (spec_enphase5P specs)\<rceil> \<and>
   forEnergy (enphase10C (calculateBatterySizing specs ls d (opts\<lparr>solarOffsetPercent := s1\<rparr>))) =
     \<lceil>max 0 (if 0 < s1
              then totalDailyKWh (calculatePracticalLoad (filteredLoads ls opts) None) * d
                   * (1 - s1 / 100)
              else totalDailyKWh (calculatePracticalLoad (filteredLoads ls opts) None) * d)
      / usableKWh (spec_enphase10C specs)\<rceil> \<and>
   forEnergy (teslaPW3Only (calculateBatterySizing specs ls d (opts\<lparr>solarOffsetPercent := s1\<rparr>))) =
     \<lceil>max 0 (if 0 < s1
              then totalDailyKWh (calculatePracticalLoad (filteredLoads ls opts) None) * d
                   * (1 - s1 / 100)
              else totalDailyKWh (calculatePracticalLoad (filteredLoads ls opts) None) * d)
      / usableKWh (spec_teslaPW3 specs)\<rceil> \<and>
   summary_totalEnergyNeededKWh
     (summary (calculateBatterySizing specs ls d (opts\<lparr>solarOffsetPercent := s1\<rparr>))) =
     of_int (js_round
       (max 0 (if 0 < s1
               then totalDailyKWh (calculatePracticalLoad (filteredLoads ls opts) None) * d
                    * (1 - s1 / 100)
               else totalDailyKWh (calculatePracticalLoad (filteredLoads ls opts) None) * d)
        * 10)) / 10 \<and>
   forEnergy (enphase5P (calculateBatterySizing example_specs [other_1000_24h] 1
                (default_options\<lparr>solarOffsetPercent := 0\<rparr>))) = 5 \<and>
   forEnergy (enphase5P (calculateBatterySizing example_specs [other_1000_24h] 1
                (default_options\<lparr>solarOffsetPercent := 50\<rparr>))) = 3 \<and>
   forPower (enphase5P (calculateBatterySizing example_specs [other_1000_24h] 1
                (default_options\<lparr>solarOffsetPercent := 0\<rparr>))) = 1 \<and>
   forPower (enphase5P (calculateBatterySizing example_specs [other_1000_24h] 1
                (default_options\<lparr>solarOffsetPercent := 50\<rparr>))) = 1"
proof -
  have u5: "usableKWh (spec_enphase5P example_specs) = 5"
    and c5: "continuousKW (spec_enphase5P example_specs) = 384 / 100"
    by (simp_all add: example_specs_def)
  have general:
    "forPower (enphase5P (calculateBatterySizing specs ls d (opts\<lparr>solarOffsetPercent := s1\<rparr>)))
     = forPower (enphase5P (calculateBatterySizing specs ls d (opts\<lparr>solarOffsetPercent := s2\<rparr>)))"
    "forPower (enphase10C (calculateBatterySizing specs ls d (opts\<lparr>solarOffsetPercent := s1\<rparr>)))
     = forPower (enphase10C (calculateBatterySizing specs ls d (opts\<lparr>solarOffsetPercent := s2\<rparr>)))"
    "forMotorStart (enphase10C (calculateBatterySizing specs ls d (opts\<lparr>solarOffsetPercent := s1\<rparr>)))
     = forMotorStart (enphase10C (calculateBatterySizing specs ls d (opts\<lparr>solarOffsetPercent := s2\<rparr>)))"
    "forPower (teslaPW3Only (calculateBatterySizing specs ls d (opts\<lparr>solarOffsetPercent := s1\<rparr>)))
     = forPower (teslaPW3Only (calculateBatterySizing specs ls d (opts\<lparr>solarOffsetPercent := s2\<rparr>)))"
    "forMotorStart (teslaPW3Only (calculateBatterySizing specs ls d (opts\<lparr>solarOffsetPercent := s1\<rparr>)))
     = forMotorStart (teslaPW3Only (calculateBatterySizing specs ls d (opts\<lparr>solarOffsetPercent := s2\<rparr>)))"
    "peakPowerKW ls (opts\<lparr>solarOffsetPercent := s1\<rparr>) = peakPowerKW ls (opts\<lparr>solarOffsetPercent := s2\<rparr>)"
    "largestLRA ls (opts\<lparr>solarOffsetPercent := s1\<rparr>) = largestLRA ls (opts\<lparr>solarOffsetPercent := s2\<rparr>)"
    by (simp_all add: sizing_fields drivers_5P drivers_10C drivers_PW3)
  have energy:
    "forEnergy (enphase5P (calculateBatterySizing specs ls d (opts\<lparr>solarOffsetPercent := s1\<rparr>))) =
       \<lceil>totalEnergyNeededKWh ls d (opts\<lparr>solarOffsetPercent := s1\<rparr>)
        / usableKWh (spec_enphase5P specs)\<rceil>"
    "forEnergy (enphase10C (calculateBatterySizing specs ls d (opts\<lparr>solarOffsetPercent := s1\<rparr>))) =
       \<lceil>totalEnergyNeededKWh ls d (opts\<lparr>solarOffsetPercent := s1\<rparr>)
        / usableKWh (spec_enphase10C specs)\<rceil>"
    "forEnergy (teslaPW3Only (calculateBatterySizing specs ls d (opts\<lparr>solarOffsetPercent := s1\<rparr>))) =
       \<lceil>totalEnergyNeededKWh ls d (opts\<lparr>solarOffsetPercent := s1\<rparr>)
        / usableKWh (spec_teslaPW3 specs)\<rceil>"
    by (simp_all only: sizing_fields drivers_5P drivers_10C drivers_PW3)
  have e0: "totalEnergyNeededKWh [other_1000_24h] 1 (default_options\<lparr>solarOffsetPercent := 0\<rparr>) = 24"
    and e50: "totalEnergyNeededKWh [other_1000_24h] 1 (default_options\<lparr>solarOffsetPercent := 50\<rparr>) = 12"
    by (simp_all add: energy_solar inputs_1000W)
  have conc:
    "forEnergy (enphase5P (calculateBatterySizing example_specs [other_1000_24h] 1
                (default_options\<lparr>solarOffsetPercent := 0\<rparr>))) = 5"
    "forEnergy (enphase5P (calculateBatterySizing example_specs [other_1000_24h] 1
                (default_options\<lparr>solarOffsetPercent := 50\<rparr>))) = 3"
    "forPower (enphase5P (calculateBatterySizing example_specs [other_1000_24h] 1
                (default_options\<lparr>solarOffsetPercent := 0\<rparr>))) = 1"
    "forPower (enphase5P (calculateBatterySizing example_specs [other_1000_24h] 1
                (default_options\<lparr>solarOffsetPercent := 50\<rparr>))) = 1"
    by (simp_all add: sizing_enphase5P drivers_5P e0 e50 u5 c5 inputs_1000W ceilings_5P)
  have tied:
    "forEnergy (enphase5P (calculateBatterySizing specs ls d (opts\<lparr>solarOffsetPercent := s1\<rparr>))) =
     \<lceil>max 0 (if 0 < s1
              then totalDailyKWh (calculatePracticalLoad (filteredLoads ls opts) None) * d
                   * (1 - s1 / 100)
              else totalDailyKWh (calculatePracticalLoad (filteredLoads ls opts) None) * d)
      / usableKWh (spec_enphase5P specs)\<rceil>"
    "forEnergy (enphase10C (calculateBatterySizing specs ls d (opts\<lparr>solarOffsetPercent := s1\<rparr>))) =
     \<lceil>max 0 (if 0 < s1
              then totalDailyKWh (calculatePracticalLoad (filteredLoads ls opts) None) * d
                   * (1 - s1 / 100)
              else totalDailyKWh (calculatePracticalLoad (filteredLoads ls opts) None) * d)
      / usableKWh (spec_enphase10C specs)\<rceil>"
    "forEnergy (teslaPW3Only (calculateBatterySizing specs ls d (opts\<lparr>solarOffsetPercent := s1\<rparr>))) =
     \<lceil>max 0 (if 0 < s1
              then totalDailyKWh (calculatePracticalLoad (filteredLoads ls opts) None) * d
                   * (1 - s1 / 100)
              else totalDailyKWh (calculatePracticalLoad (filteredLoads ls opts) None) * d)
      / usableKWh (spec_teslaPW3 specs)\<rceil>"
    "summary_totalEnergyNeededKWh
     (summary (calculateBatterySizing specs ls d (opts\<lparr>solarOffsetPercent := s1\<rparr>))) =
     of_int (js_round
       (max 0 (if 0 < s1
               then totalDailyKWh (calculatePracticalLoad (filteredLoads ls opts) None) * d
                    * (1 - s1 / 100)
               else totalDailyKWh (calculatePracticalLoad (filteredLoads ls opts) None) * d)
        * 10)) / 10"
    by (simp_all only: energy summary_energy energy_solar)
  show ?thesis
    by (intro conjI general energy_solar tied conc)
qed


subsection \<open>The mixed Enphase configuration\<close>

lemma mixed_fields:
  "count10C (sizeEnphaseMixed specs e p l) =
     max (max \<lceil>p / continuousKW (spec_enphase10C specs)\<rceil> (forMotor l (spec_enphase10C specs))) 1"
  "count5P (sizeEnphaseMixed specs e p l) =
     (if 0 < max 0 (e - of_int (max (max \<lceil>p / continuousKW (spec_enphase10C specs)\<rceil>
                                      (forMotor l (spec_enphase10C specs))) 1)
                        * usableKWh (spec_enphase10C specs))
      then \<lceil>max 0 (e - of_int (max (max \<lceil>p / continuousKW (spec_enphase10C specs)\<rceil>
                                      (forMotor l (spec_enphase10C specs))) 1)
                        * usableKWh (spec_enphase10C specs))
            / usableKWh (spec_enphase5P specs)\<rceil>
      else 0)"
  "totalUnits (sizeEnphaseMixed specs e p l) =
     count10C (sizeEnphaseMixed specs e p l) + count5P (sizeEnphaseMixed specs e p l)"
  "notFeasible (sizeEnphaseMixed specs e p l) =
     (\<not> totalUnits (sizeEnphaseMixed specs e p l)
          \<le> maxUnits (spec_enphase10C specs) + maxUnits (spec_enphase5P specs))"
  by (simp_all only: sizeEnphaseMixed_def Let_def mixed_result.select_convs
      multi_result.select_convs config_result.select_convs)

lemma inputs_condenser:
  "totalEnergyNeededKWh [condenser_200] 1 default_options = 48"
  "peakPowerKW [condenser_200] default_options = 3"
  "largestLRA [condenser_200] default_options = 200"
  by (simp_all add: totalEnergyNeededKWh_def peakPowerKW_def largestLRA_def
      filteredLoads_def calculatePracticalLoad_def sumWatts_def or_default_def
      condenser_200_def default_options_def Let_def)

lemma ceilings_mixed:
  "\<lceil>25 / 59 :: rat\<rceil> = 1" "\<lceil>20 / 9 :: rat\<rceil> = 3" "\<lceil>18 / 5 :: rat\<rceil> = 4"
  by (simp_all add: ceiling_eq_iff)

lemma mixed_condenser:
  "sizeEnphaseMixed example_specs 48 3 200 =
     \<lparr> totalKWh = 50, totalKW = 183 / 5, notFeasible = False, reason = None,
       totalUnits = 7, count10C = 3, count5P = 4 \<rparr>"
  by (simp add: sizeEnphaseMixed_def example_specs_def forMotor_def Let_def ceilings_mixed)

text \<open>
  C7. In the mixed Enphase configuration the 10C count is the count for power and motor
  start alone (the ceiling of the peak power over the 10C power, the ceiling of the
  largest locked-rotor current over the 10C motor-start rating when there is such a
  current, and at least 1: the \<open>forPower\<close> and \<open>forMotorStart\<close> of the 10C result); the 5P
  count is the ceiling of the energy that remains after the 10C units, over the usable
  energy of a 5P, and 0 when nothing remains; the total is their sum, hence at most the
  10C count plus that ceiling; and \<open>notFeasible\<close> holds exactly when the total exceeds
  the sum of the two products' maxima. A condenser of 3000 W for 16 hours with a
  locked-rotor current of 200 A takes 3 units of the 10C, for motor start, and 4 of the
  5P.
\<close>

theorem C7_enphase_mixed:
  "enphase_mixed (calculateBatterySizing specs ls d opts) =
     sizeEnphaseMixed specs (totalEnergyNeededKWh ls d opts) (peakPowerKW ls opts)
       (largestLRA ls opts) \<and>
   count10C (sizeEnphaseMixed specs e p l) =
     max (max \<lceil>p / continuousKW (spec_enphase10C specs)\<rceil>
              (if 0 < l then \<lceil>l / motorStartLRA (spec_enphase10C specs)\<rceil> else 0)) 1 \<and>
   1 \<le> count10C (sizeEnphaseMixed specs e p l) \<and>
   count5P (sizeEnphaseMixed specs e p l) =
     (if 0 < max 0 (e - of_int (count10C (sizeEnphaseMixed specs e p l))
                        * usableKWh (spec_enphase10C specs))
      then \<lceil>max 0 (e - of_int (count10C (sizeEnphaseMixed specs e p l))
                        * usableKWh (spec_enphase10C specs))
            / usableKWh (spec_enphase5P specs)\<rceil>
      else 0) \<and>
   totalUnits (sizeEnphaseMixed specs e p l) =
     count10C (sizeEnphaseMixed specs e p l) + count5P (sizeEnphaseMixed specs e p l) \<and>
   totalUnits (sizeEnphaseMixed specs e p l) \<le>
     count10C (sizeEnphaseMixed specs e p l)
     + \<lceil>max 0 (e - of_int (count10C (sizeEnphaseMixed specs e p l))
                      * usableKWh (spec_enphase10C specs))
        / usableKWh (spec_enphase5P specs)\<rceil> \<and>
   notFeasible (sizeEnphaseMixed specs e p l) =
     (maxUnits (spec_enphase10C specs) + maxUnits (spec_enphase5P specs)
      < totalUnits (sizeEnphaseMixed specs e p l)) \<and>
   count10C (enphase_mixed (calculateBatterySizing specs ls d opts)) =
     max (max (forPower (enphase10C (calculateBatterySizing specs ls d opts)))
              (case forMotorStart (enphase10C (calculateBatterySizing specs ls d opts)) of
                 None \<Rightarrow> 0 | Some m \<Rightarrow> m)) 1 \<and>
   count10C (enphase_mixed (calculateBatterySizing example_specs [condenser_200] 1
               default_options)) = 3 \<and>
   count5P (enphase_mixed (calculateBatterySizing example_specs [condenser_200] 1
              default_options)) = 4 \<and>
   totalUnits (enphase_mixed (calculateBatterySizing example_specs [condenser_200] 1
                 default_options)) = 7 \<and>
   notFeasible (enphase_mixed (calculateBatterySizing example_specs [condenser_200] 1
                  default_options)) = False"
proof -
  let ?m = "sizeEnphaseMixed specs e p l"
  let ?rem = "max 0 (e - of_int (count10C ?m) * usableKWh (spec_enphase10C specs))"
  have c10': "count10C (sizeEnphaseMixed specs e' p' l') =
     max (max \<lceil>p' / continuousKW (spec_enphase10C specs)\<rceil> (forMotor l' (spec_enphase10C specs))) 1"
    for e' p' l'
    by (rule mixed_fields(1))
  have c10: "count10C ?m =
     max (max \<lceil>p / continuousKW (spec_enphase10C specs)\<rceil>
              (if 0 < l then \<lceil>l / motorStartLRA (spec_enphase10C specs)\<rceil> else 0)) 1"
    by (simp only: c10' forMotor_def)
  have ge: "1 \<le> count10C ?m" unfolding c10 by simp
  have c5: "count5P ?m = (if 0 < ?rem then \<lceil>?rem / usableKWh (spec_enphase5P specs)\<rceil> else 0)"
    unfolding c10' by (rule mixed_fields(2))
  have tot: "totalUnits ?m = count10C ?m + count5P ?m"
    by (rule mixed_fields(3))
  have "count5P ?m = \<lceil>?rem / usableKWh (spec_enphase5P specs)\<rceil>"
  proof (cases "0 < ?rem")
    case True
    with c5 show ?thesis by (simp only: if_True)
  next
    case False
    then have "?rem = 0" by auto
    with c5 show ?thesis by simp
  qed
  then have le: "totalUnits ?m \<le> count10C ?m + \<lceil>?rem / usableKWh (spec_enphase5P specs)\<rceil>"
    using tot by simp
  have nf: "notFeasible ?m =
     (maxUnits (spec_enphase10C specs) + maxUnits (spec_enphase5P specs) < totalUnits ?m)"
    unfolding mixed_fields(4) by (simp only: not_le)
  have link: "count10C (enphase_mixed (calculateBatterySizing specs ls d opts)) =
     max (max (forPower (enphase10C (calculateBatterySizing specs ls d opts)))
              (case forMotorStart (enphase10C (calculateBatterySizing specs ls d opts)) of
                 None \<Rightarrow> 0 | Some m \<Rightarrow> m)) 1"
    by (simp only: sizing_enphase_mixed sizing_enphase10C drivers_10C c10' option.case)
  have conc:
    "count10C (enphase_mixed (calculateBatterySizing example_specs [condenser_200] 1
               default_options)) = 3"
    "count5P (enphase_mixed (calculateBatterySizing example_specs [condenser_200] 1
              default_options)) = 4"
    "totalUnits (enphase_mixed (calculateBatterySizing example_specs [condenser_200] 1
                 default_options)) = 7"
    "notFeasible (enphase_mixed (calculateBatterySizing example_specs [condenser_200] 1
                  default_options)) = False"
    by (simp_all add: sizing_enphase_mixed inputs_condenser mixed_condenser)
  show ?thesis
    by (intro conjI sizing_enphase_mixed c10 ge c5 tot le nf link conc)
qed

end
